theory Spec2Isabelle
  imports Complex_Main "HOL-Library.AList"
begin

section \<open>Numbers\<close>

text \<open>
  The calculator of \<^verbatim>\<open>scoc_metric.py\<close> works on Python floats and on float64 columns.
  A number is modelled as an exact real or one of the three non-finite values of IEEE 754.
  Rounding, overflow and the sign of zero are not modelled: a finite result is the exact
  result, and a zero divisor counts as \<open>+0.0\<close>.
\<close>

datatype fl = Fin real | PInf | NInf | NaN

datatype error = KeyError string | ValueError | TypeError | ZeroDivisionError | OverflowError

definition bindE :: "error + 'a \<Rightarrow> ('a \<Rightarrow> error + 'b) \<Rightarrow> error + 'b" where
  "bindE m f = (case m of Inl e \<Rightarrow> Inl e | Inr x \<Rightarrow> f x)"

fun fl_neg :: "fl \<Rightarrow> fl" where
  "fl_neg (Fin a) = Fin (- a)"
| "fl_neg PInf = NInf"
| "fl_neg NInf = PInf"
| "fl_neg NaN = NaN"

fun fl_add :: "fl \<Rightarrow> fl \<Rightarrow> fl" where
  "fl_add (Fin a) (Fin b) = Fin (a + b)"
| "fl_add NaN _ = NaN"
| "fl_add _ NaN = NaN"
| "fl_add PInf NInf = NaN"
| "fl_add NInf PInf = NaN"
| "fl_add PInf _ = PInf"
| "fl_add _ PInf = PInf"
| "fl_add NInf _ = NInf"
| "fl_add _ NInf = NInf"

definition fl_sub :: "fl \<Rightarrow> fl \<Rightarrow> fl" where
  "fl_sub a b = fl_add a (fl_neg b)"

fun fl_mul :: "fl \<Rightarrow> fl \<Rightarrow> fl" where
  "fl_mul (Fin a) (Fin b) = Fin (a * b)"
| "fl_mul NaN _ = NaN"
| "fl_mul _ NaN = NaN"
| "fl_mul (Fin a) PInf = (if a = 0 then NaN else if 0 < a then PInf else NInf)"
| "fl_mul (Fin a) NInf = (if a = 0 then NaN else if 0 < a then NInf else PInf)"
| "fl_mul PInf (Fin b) = (if b = 0 then NaN else if 0 < b then PInf else NInf)"
| "fl_mul NInf (Fin b) = (if b = 0 then NaN else if 0 < b then NInf else PInf)"
| "fl_mul PInf PInf = PInf"
| "fl_mul PInf NInf = NInf"
| "fl_mul NInf PInf = NInf"
| "fl_mul NInf NInf = PInf"

text \<open>
  Division of float64 columns (numpy): a zero divisor gives an infinity or NaN and no
  exception.
\<close>

fun np_div :: "fl \<Rightarrow> fl \<Rightarrow> fl" where
  "np_div (Fin a) (Fin b) =
     (if b = 0 then (if a = 0 then NaN else if 0 < a then PInf else NInf) else Fin (a / b))"
| "np_div NaN _ = NaN"
| "np_div _ NaN = NaN"
| "np_div (Fin a) PInf = Fin 0"
| "np_div (Fin a) NInf = Fin 0"
| "np_div PInf (Fin b) = (if 0 \<le> b then PInf else NInf)"
| "np_div NInf (Fin b) = (if 0 \<le> b then NInf else PInf)"
| "np_div PInf PInf = NaN"
| "np_div PInf NInf = NaN"
| "np_div NInf PInf = NaN"
| "np_div NInf NInf = NaN"

text \<open>Division of Python floats: a zero divisor raises \<^verbatim>\<open>ZeroDivisionError\<close>.\<close>

definition py_div :: "fl \<Rightarrow> fl \<Rightarrow> error + fl" where
  "py_div a b = (if b = Fin 0 then Inl ZeroDivisionError else Inr (np_div a b))"

text \<open>
  \<^verbatim>\<open>x ** n\<close> for a Python float \<open>x\<close> and an int \<open>n\<close>: anything to the power 0 is 1,
  and zero to a negative power raises.
\<close>

definition py_pow :: "fl \<Rightarrow> int \<Rightarrow> error + fl" where
  "py_pow x n =
     (if n = 0 then Inr (Fin 1)
      else case x of
        NaN \<Rightarrow> Inr NaN
      | PInf \<Rightarrow> Inr (if 0 < n then PInf else Fin 0)
      | NInf \<Rightarrow> Inr (if 0 < n then (if odd n then NInf else PInf) else Fin 0)
      | Fin a \<Rightarrow>
          if 0 < n then Inr (Fin (a ^ nat n))
          else if a = 0 then Inl ZeroDivisionError
          else Inr (Fin (1 / a ^ nat (- n))))"

text \<open>Comparisons: every comparison with NaN is false.\<close>

fun fl_le :: "fl \<Rightarrow> fl \<Rightarrow> bool" where
  "fl_le NaN _ = False"
| "fl_le _ NaN = False"
| "fl_le (Fin a) (Fin b) = (a \<le> b)"
| "fl_le NInf _ = True"
| "fl_le _ PInf = True"
| "fl_le PInf _ = False"
| "fl_le _ NInf = False"

definition fl_ge :: "fl \<Rightarrow> fl \<Rightarrow> bool" where
  "fl_ge a b = fl_le b a"

section \<open>Amortisation helper\<close>

text \<open>
  \<^verbatim>\<open>
  def annual_pni(loan_amount: float, annual_rate: float, years: int) -> float:
      if annual_rate <= 0:
          return loan_amount / years  # edge case
      r = annual_rate / 12
      n = years * 12
      payment = loan_amount * (r * (1 + r)**n) / ((1 + r)**n - 1)
      return payment * 12  # annualise
  \<close>
\<close>

definition annual_pni :: "fl \<Rightarrow> fl \<Rightarrow> int \<Rightarrow> error + fl" where
  "annual_pni loan_amount annual_rate years =
     (if fl_le annual_rate (Fin 0) then py_div loan_amount (Fin (of_int years))
      else
        bindE (py_div annual_rate (Fin 12)) (\<lambda>r.
        let n = years * 12 in
        bindE (py_pow (fl_add (Fin 1) r) n) (\<lambda>p1.
        bindE (py_pow (fl_add (Fin 1) r) n) (\<lambda>p2.
        bindE (py_div (fl_mul loan_amount (fl_mul r p1)) (fl_sub p2 (Fin 1))) (\<lambda>payment.
        Inr (fl_mul payment (Fin 12)))))))"

section \<open>Tables\<close>

text \<open>
  A pandas DataFrame is a number of rows and a list of named columns, in the order in
  which they were added. A column holds floats (a missing cell is NaN) or strings.
  An integer column is a column of floats with integral values.
\<close>

datatype column = NumCol "fl list" | StrCol "string list"

datatype cell = Num fl | Str string

record dataframe =
  nrows :: nat
  columns :: "(string \<times> column) list"

fun col_len :: "column \<Rightarrow> nat" where
  "col_len (NumCol xs) = length xs"
| "col_len (StrCol ss) = length ss"

definition wf_frame :: "dataframe \<Rightarrow> bool" where
  "wf_frame df \<longleftrightarrow>
     distinct (map fst (columns df)) \<and> list_all (\<lambda>(c, s). col_len s = nrows df) (columns df)"

text \<open>\<^verbatim>\<open>df[c]\<close>, \<^verbatim>\<open>df[c] = s\<close> and \<^verbatim>\<open>c in df.columns\<close>.\<close>

definition getitem :: "string \<Rightarrow> dataframe \<Rightarrow> error + column" where
  "getitem c df = (case map_of (columns df) c of None \<Rightarrow> Inl (KeyError c) | Some s \<Rightarrow> Inr s)"

definition setitem :: "string \<Rightarrow> column \<Rightarrow> dataframe \<Rightarrow> dataframe" where
  "setitem c s df = df\<lparr>columns := AList.update c s (columns df)\<rparr>"

definition has_column :: "string \<Rightarrow> dataframe \<Rightarrow> bool" where
  "has_column c df \<longleftrightarrow> c \<in> set (map fst (columns df))"

text \<open>
  \<^verbatim>\<open>s.astype(float)\<close>, \<^verbatim>\<open>s.fillna(v)\<close> and \<^verbatim>\<open>s.astype(int)\<close> on a column.
  A column of strings is outside the numeric input the calculator is written for: pandas
  would try to read each string as a number, and the model raises the \<^verbatim>\<open>ValueError\<close>
  of a string that is no number. The cast to int truncates towards zero and refuses NaN
  and the infinities.
\<close>

fun astype_float :: "column \<Rightarrow> error + fl list" where
  "astype_float (NumCol xs) = Inr xs"
| "astype_float (StrCol ss) = (if ss = [] then Inr [] else Inl ValueError)"

fun fillna :: "fl \<Rightarrow> column \<Rightarrow> column" where
  "fillna v (NumCol xs) = NumCol (map (\<lambda>x. if x = NaN then v else x) xs)"
| "fillna v (StrCol ss) = StrCol ss"

definition trunc :: "real \<Rightarrow> int" where
  "trunc x = (if 0 \<le> x then \<lfloor>x\<rfloor> else \<lceil>x\<rceil>)"

fun is_finite :: "fl \<Rightarrow> bool" where
  "is_finite (Fin a) = True"
| "is_finite _ = False"

fun fl_trunc :: "fl \<Rightarrow> fl" where
  "fl_trunc (Fin a) = Fin (of_int (trunc a))"
| "fl_trunc x = x"

fun astype_int :: "column \<Rightarrow> error + fl list" where
  "astype_int (NumCol xs) = (if list_all is_finite xs then Inr (map fl_trunc xs) else Inl ValueError)"
| "astype_int (StrCol ss) = (if ss = [] then Inr [] else Inl ValueError)"

text \<open>A column used as an operand of arithmetic: strings raise \<^verbatim>\<open>TypeError\<close>.\<close>

fun num :: "column \<Rightarrow> error + fl list" where
  "num (NumCol xs) = Inr xs"
| "num (StrCol ss) = Inl TypeError"

text \<open>Column expressions, evaluated on the frame they read.\<close>

type_synonym expr = "dataframe \<Rightarrow> error + fl list"

definition col :: "string \<Rightarrow> expr" where
  "col c df = bindE (getitem c df) num"

definition col_float :: "string \<Rightarrow> expr" where
  "col_float c df = bindE (getitem c df) astype_float"

definition col_fillna_float :: "fl \<Rightarrow> string \<Rightarrow> expr" where
  "col_fillna_float v c df = bindE (getitem c df) (\<lambda>s. astype_float (fillna v s))"

definition col_int :: "string \<Rightarrow> expr" where
  "col_int c df = bindE (getitem c df) astype_int"

definition map1 :: "(fl \<Rightarrow> fl) \<Rightarrow> expr \<Rightarrow> expr" where
  "map1 f e df = bindE (e df) (\<lambda>xs. Inr (map f xs))"

definition map2e :: "(fl \<Rightarrow> fl \<Rightarrow> fl) \<Rightarrow> expr \<Rightarrow> expr \<Rightarrow> expr" where
  "map2e f e1 e2 df = bindE (e1 df) (\<lambda>xs. bindE (e2 df) (\<lambda>ys. Inr (map2 f xs ys)))"

text \<open>Rows, for \<^verbatim>\<open>df.apply(f, axis=1)\<close>: the function is called on each row in turn.\<close>

type_synonym row = "string \<Rightarrow> cell option"

fun cell_at :: "column \<Rightarrow> nat \<Rightarrow> cell" where
  "cell_at (NumCol xs) i = Num (xs ! i)"
| "cell_at (StrCol ss) i = Str (ss ! i)"

definition row_at :: "dataframe \<Rightarrow> nat \<Rightarrow> row" where
  "row_at df i c = map_option (\<lambda>s. cell_at s i) (map_of (columns df) c)"

definition row_num :: "row \<Rightarrow> string \<Rightarrow> error + fl" where
  "row_num r c =
     (case r c of None \<Rightarrow> Inl (KeyError c) | Some (Num x) \<Rightarrow> Inr x | Some (Str s) \<Rightarrow> Inl TypeError)"

fun traverse :: "('a \<Rightarrow> error + 'b) \<Rightarrow> 'a list \<Rightarrow> error + 'b list" where
  "traverse f [] = Inr []"
| "traverse f (x # xs) = bindE (f x) (\<lambda>y. bindE (traverse f xs) (\<lambda>ys. Inr (y # ys)))"

definition apply_rows :: "(row \<Rightarrow> error + 'a) \<Rightarrow> dataframe \<Rightarrow> error + 'a list" where
  "apply_rows f df = traverse (\<lambda>i. f (row_at df i)) [0..<nrows df]"

text \<open>\<^verbatim>\<open>int(x)\<close> on a Python float.\<close>

fun py_int :: "fl \<Rightarrow> error + int" where
  "py_int (Fin a) = Inr (trunc a)"
| "py_int NaN = Inl ValueError"
| "py_int PInf = Inl OverflowError"
| "py_int NInf = Inl OverflowError"

text \<open>Statements change the frame they are run on, or raise.\<close>

type_synonym stmt = "dataframe \<Rightarrow> error + dataframe"

definition assign :: "string \<Rightarrow> expr \<Rightarrow> stmt" where
  "assign c e df = bindE (e df) (\<lambda>xs. Inr (setitem c (NumCol xs) df))"

definition assign_str :: "string \<Rightarrow> (dataframe \<Rightarrow> error + string list) \<Rightarrow> stmt" where
  "assign_str c e df = bindE (e df) (\<lambda>ss. Inr (setitem c (StrCol ss) df))"

definition assign_scalar :: "string \<Rightarrow> fl \<Rightarrow> stmt" where
  "assign_scalar c v df = Inr (setitem c (NumCol (replicate (nrows df) v)) df)"

definition if_absent :: "string \<Rightarrow> stmt \<Rightarrow> stmt" where
  "if_absent c s df = (if \<not> has_column c df then s df else Inr df)"

text \<open>
  On a frame without rows \<^verbatim>\<open>df.apply(f, axis=1)\<close> does not give a column: pandas
  returns a copy of the frame, and assigning a frame of several columns to one column
  raises \<^verbatim>\<open>ValueError\<close>.
\<close>

definition assign_apply :: "string \<Rightarrow> (row \<Rightarrow> error + fl) \<Rightarrow> stmt" where
  "assign_apply c f df =
     (if nrows df = 0 then Inl ValueError else assign c (apply_rows f) df)"

text \<open>\<^verbatim>\<open>df[cs]\<close>: a new frame of the columns named, in the order named.\<close>

definition select :: "string list \<Rightarrow> dataframe \<Rightarrow> error + dataframe" where
  "select cs df =
     bindE (traverse (\<lambda>c. bindE (getitem c df) (\<lambda>s. Inr (c, s))) cs)
       (\<lambda>named. Inr \<lparr>nrows = nrows df, columns = named\<rparr>)"

section \<open>Assumptions\<close>

record defaults =
  vacancy_weeks :: real
  maintenance_rate :: real
  capex_rate :: real
  purchase_cost_rate :: real
  lvr :: real
  loan_term_years :: real
  stress_bps :: real

definition DEFAULTS :: defaults where
  "DEFAULTS = \<lparr>vacancy_weeks = 4, maintenance_rate = 5 / 100, capex_rate = 1 / 100,
     purchase_cost_rate = 5 / 100, lvr = 80 / 100, loan_term_years = 30, stress_bps = 200\<rparr>"

section \<open>Core calculator\<close>

text \<open>
  The frames live in a store; a variable of the program holds the position of a frame.
  \<^verbatim>\<open>df.copy()\<close> adds a frame to the store, and an assignment \<^verbatim>\<open>df[c] = ...\<close>
  changes the frame at the position that \<^verbatim>\<open>df\<close> holds.
\<close>

type_synonym heap = "dataframe list"

definition copy :: "nat \<Rightarrow> heap \<Rightarrow> nat \<times> heap" where
  "copy r h = (length h, h @ [h ! r])"

definition exec :: "nat \<Rightarrow> stmt \<Rightarrow> heap \<Rightarrow> (error + unit) \<times> heap" where
  "exec r s h = (case s (h ! r) of Inl e \<Rightarrow> (Inl e, h) | Inr d \<Rightarrow> (Inr (), h[r := d]))"

fun run :: "nat \<Rightarrow> stmt list \<Rightarrow> heap \<Rightarrow> (error + unit) \<times> heap" where
  "run r [] h = (Inr (), h)"
| "run r (s # ss) h =
     (case exec r s h of (Inl e, h') \<Rightarrow> (Inl e, h') | (Inr u, h') \<Rightarrow> run r ss h')"

text \<open>Lines 46 to 67: required fields, optional cost columns, financing inputs.\<close>

definition cost_columns :: "string list" where
  "cost_columns = [''council_rates'', ''strata_body_corp'', ''insurance'', ''land_tax'', ''other_costs'']"

definition cost_column :: "string \<Rightarrow> stmt list" where
  "cost_column c = [if_absent c (assign_scalar c (Fin 0)), assign c (col_fillna_float (Fin 0) c)]"

definition inputs :: "defaults \<Rightarrow> stmt list" where
  "inputs d =
     [assign ''price'' (col_float ''price''),
      assign ''weekly_rent'' (col_float ''weekly_rent'')]
     @ concat (map cost_column cost_columns)
     @ [if_absent ''current_interest_rate'' (assign_scalar ''current_interest_rate'' (Fin (65 / 1000))),
        assign ''current_interest_rate'' (col_float ''current_interest_rate''),
        if_absent ''lvr'' (assign_scalar ''lvr'' (Fin (lvr d))),
        assign ''lvr'' (col_float ''lvr''),
        if_absent ''loan_term_years'' (assign_scalar ''loan_term_years'' (Fin (loan_term_years d))),
        assign ''loan_term_years'' (col_int ''loan_term_years'')]"

text \<open>Lines 69 to 85: income and costs.\<close>

definition income_and_costs :: "defaults \<Rightarrow> stmt list" where
  "income_and_costs d =
     [assign ''annual_rent'' (map1 (\<lambda>x. fl_mul x (Fin 52)) (col ''weekly_rent'')),
      assign ''vacancy_loss'' (map1 (\<lambda>x. fl_mul x (Fin (vacancy_weeks d))) (col ''weekly_rent'')),
      assign ''maintenance'' (map1 (\<lambda>x. fl_mul (Fin (maintenance_rate d)) x) (col ''annual_rent'')),
      assign ''capex_reserve'' (map1 (\<lambda>x. fl_mul (Fin (capex_rate d)) x) (col ''price'')),
      assign ''operating_costs''
        (map2e fl_add (map2e fl_add (map2e fl_add (map2e fl_add (map2e fl_add (map2e fl_add
           (col ''council_rates'')
           (col ''strata_body_corp''))
           (col ''insurance''))
           (col ''land_tax''))
           (col ''other_costs''))
           (col ''maintenance''))
           (col ''capex_reserve'')),
      assign ''NOI''
        (map2e fl_sub (map2e fl_sub (col ''annual_rent'') (col ''vacancy_loss''))
           (col ''operating_costs''))]"

text \<open>
  Lines 87 to 98: financing and stress. \<open>debt_service\<close> is the function applied to each
  row at line 93. \<^verbatim>\<open>annual_pni\<close> is modelled as its signature declares it, on Python
  floats and an int: a division by zero inside it raises, which takes \<open>years = 0\<close>.
\<close>

definition debt_service :: "row \<Rightarrow> error + fl" where
  "debt_service r =
     bindE (row_num r ''loan_amount'') (\<lambda>loan_amount.
     bindE (row_num r ''stress_rate'') (\<lambda>stress_rate.
     bindE (row_num r ''loan_term_years'') (\<lambda>y.
     bindE (py_int y) (\<lambda>years.
     annual_pni loan_amount stress_rate years))))"

definition financing :: "defaults \<Rightarrow> stmt list" where
  "financing d =
     [assign ''loan_amount'' (map2e fl_mul (col ''price'') (col ''lvr'')),
      assign ''equity''
        (map2e fl_add
           (map2e fl_mul (col ''price'') (map1 (\<lambda>x. fl_sub (Fin 1) x) (col ''lvr'')))
           (map1 (\<lambda>x. fl_mul x (Fin (purchase_cost_rate d))) (col ''price''))),
      assign ''stress_rate''
        (map1 (\<lambda>x. fl_add x (Fin (stress_bps d / 10000))) (col ''current_interest_rate'')),
      assign_apply ''annual_debt_service_stress'' debt_service,
      assign ''cashflow_after_debt_stress''
        (map2e fl_sub (col ''NOI'') (col ''annual_debt_service_stress'')),
      assign ''sCoC_percent''
        (map1 (\<lambda>x. fl_mul (Fin 100) x)
           (map2e np_div (col ''cashflow_after_debt_stress'') (col ''equity'')))]"

text \<open>Lines 100 to 103: context metrics.\<close>

definition context_metrics :: "stmt list" where
  "context_metrics =
     [assign ''gross_yield_percent''
        (map1 (\<lambda>x. fl_mul (Fin 100) x) (map2e np_div (col ''annual_rent'') (col ''price''))),
      assign ''net_yield_percent''
        (map1 (\<lambda>x. fl_mul (Fin 100) x) (map2e np_div (col ''NOI'') (col ''price''))),
      assign ''DSCR_stress'' (map2e np_div (col ''NOI'') (col ''annual_debt_service_stress''))]"

text \<open>
  Lines 105 to 112: the signal. \<^verbatim>\<open>a >= x and b >= y\<close> reads \<open>b\<close> only when the first
  comparison holds.
\<close>

definition both_ge :: "row \<Rightarrow> string \<Rightarrow> fl \<Rightarrow> string \<Rightarrow> fl \<Rightarrow> error + bool" where
  "both_ge r c1 k1 c2 k2 =
     bindE (row_num r c1) (\<lambda>x.
       if fl_ge x k1 then bindE (row_num r c2) (\<lambda>y. Inr (fl_ge y k2)) else Inr False)"

definition label :: "row \<Rightarrow> error + string" where
  "label r =
     bindE (both_ge r ''sCoC_percent'' (Fin 2) ''DSCR_stress'' (Fin (11 / 10))) (\<lambda>buy.
       if buy then Inr ''BUY (resilient)''
       else
         bindE (both_ge r ''sCoC_percent'' (Fin 0) ''DSCR_stress'' (Fin 1)) (\<lambda>watch.
           if watch then Inr ''WATCH (thin buffer)''
           else Inr ''AVOID (negative under stress)''))"

definition signal :: "stmt list" where
  "signal = [assign_str ''signal'' (apply_rows label)]"

text \<open>Lines 114 to 123: the columns of the result.\<close>

definition order :: "string list" where
  "order =
     [''address'', ''price'', ''weekly_rent'',
      ''gross_yield_percent'', ''net_yield_percent'',
      ''NOI'', ''loan_amount'', ''equity'',
      ''stress_rate'', ''annual_debt_service_stress'',
      ''cashflow_after_debt_stress'', ''sCoC_percent'',
      ''DSCR_stress'', ''signal'']"

definition body :: "defaults \<Rightarrow> stmt list" where
  "body d = inputs d @ income_and_costs d @ financing d @ context_metrics @ signal"

text \<open>
  \<^verbatim>\<open>compute_scoc(df, defaults)\<close>: the argument is the position \<open>df0\<close> of the caller's
  frame. The result is the position of the frame returned, or the error raised, and the
  store as the call leaves it.
\<close>

definition compute_scoc :: "defaults \<Rightarrow> nat \<Rightarrow> heap \<Rightarrow> (error + nat) \<times> heap" where
  "compute_scoc d df0 h =
     (let (df, h1) = copy df0 h in
      case run df (body d) h1 of
        (Inl e, h2) \<Rightarrow> (Inl e, h2)
      | (Inr u, h2) \<Rightarrow>
          (case select (filter (\<lambda>c. has_column c (h2 ! df)) order) (h2 ! df) of
             Inl e \<Rightarrow> (Inl e, h2)
           | Inr out \<Rightarrow> (Inr (length h2), h2 @ [out])))"

section \<open>Auxiliary definitions\<close>

text \<open>
  The definitions of this section serve the proofs and the examples; none of them is
  part of the calculator.
\<close>

subsection \<open>Statements without the store\<close>

text \<open>A list of statements run on a frame, stopping at the first error.\<close>

fun seqE :: "stmt list \<Rightarrow> stmt" where
  "seqE [] df = Inr df"
| "seqE (s # ss) df = bindE (s df) (seqE ss)"

subsection \<open>Input columns\<close>

text \<open>
  The value of an optional input column after lines 50 to 67: the column cast by \<open>f\<close>
  when the table has it, the default \<open>v\<close> in every row, cast by \<open>f\<close>, when not; and
  the same for the one cell of a row.
\<close>

definition input_col :: "(column \<Rightarrow> error + fl list) \<Rightarrow> fl \<Rightarrow> string \<Rightarrow> expr" where
  "input_col f v c df =
     (case getitem c df of Inl e \<Rightarrow> f (NumCol (replicate (nrows df) v)) | Inr s \<Rightarrow> f s)"

abbreviation cost_in :: "string \<Rightarrow> expr" where
  "cost_in \<equiv> input_col (\<lambda>s. astype_float (fillna (Fin 0) s)) (Fin 0)"


subsection \<open>Derived columns\<close>

text \<open>The right-hand sides of lines 70 to 112, on the lists that the columns hold.\<close>

definition annual_rent_col :: "fl list \<Rightarrow> fl list" where
  "annual_rent_col ws = map (\<lambda>x. fl_mul x (Fin 52)) ws"

definition vacancy_loss_col :: "defaults \<Rightarrow> fl list \<Rightarrow> fl list" where
  "vacancy_loss_col d ws = map (\<lambda>x. fl_mul x (Fin (vacancy_weeks d))) ws"

definition maintenance_col :: "defaults \<Rightarrow> fl list \<Rightarrow> fl list" where
  "maintenance_col d ar = map (\<lambda>x. fl_mul (Fin (maintenance_rate d)) x) ar"

definition capex_reserve_col :: "defaults \<Rightarrow> fl list \<Rightarrow> fl list" where
  "capex_reserve_col d ps = map (\<lambda>x. fl_mul (Fin (capex_rate d)) x) ps"

definition operating_costs_col ::
  "fl list \<Rightarrow> fl list \<Rightarrow> fl list \<Rightarrow> fl list \<Rightarrow> fl list \<Rightarrow> fl list \<Rightarrow> fl list \<Rightarrow> fl list" where
  "operating_costs_col crs sbs inss lts ocs mt cx =
     map2 fl_add (map2 fl_add (map2 fl_add (map2 fl_add (map2 fl_add (map2 fl_add
       crs sbs) inss) lts) ocs) mt) cx"

definition noi_col :: "fl list \<Rightarrow> fl list \<Rightarrow> fl list \<Rightarrow> fl list" where
  "noi_col ar vl oc = map2 fl_sub (map2 fl_sub ar vl) oc"

definition loan_amount_col :: "fl list \<Rightarrow> fl list \<Rightarrow> fl list" where
  "loan_amount_col ps lvs = map2 fl_mul ps lvs"

definition equity_col :: "defaults \<Rightarrow> fl list \<Rightarrow> fl list \<Rightarrow> fl list" where
  "equity_col d ps lvs =
     map2 fl_add (map2 fl_mul ps (map (\<lambda>x. fl_sub (Fin 1) x) lvs))
       (map (\<lambda>x. fl_mul x (Fin (purchase_cost_rate d))) ps)"

definition stress_rate_col :: "defaults \<Rightarrow> fl list \<Rightarrow> fl list" where
  "stress_rate_col d cirs = map (\<lambda>x. fl_add x (Fin (stress_bps d / 10000))) cirs"

definition cashflow_col :: "fl list \<Rightarrow> fl list \<Rightarrow> fl list" where
  "cashflow_col noi ads = map2 fl_sub noi ads"

definition percent_col :: "fl list \<Rightarrow> fl list \<Rightarrow> fl list" where
  "percent_col xs ys = map (\<lambda>x. fl_mul (Fin 100) x) (map2 np_div xs ys)"

definition dscr_col :: "fl list \<Rightarrow> fl list \<Rightarrow> fl list" where
  "dscr_col noi ads = map2 np_div noi ads"

definition signal_of :: "fl \<Rightarrow> fl \<Rightarrow> string" where
  "signal_of s x =
     (if fl_ge s (Fin 2) \<and> fl_ge x (Fin (11 / 10)) then ''BUY (resilient)''
      else if fl_ge s (Fin 0) \<and> fl_ge x (Fin 1) then ''WATCH (thin buffer)''
      else ''AVOID (negative under stress)'')"

definition signal_col :: "nat \<Rightarrow> fl list \<Rightarrow> fl list \<Rightarrow> string list" where
  "signal_col n sc ds = map (\<lambda>i. signal_of (sc ! i) (ds ! i)) [0..<n]"

definition noi_of ::
  "defaults \<Rightarrow> fl list \<Rightarrow> fl list \<Rightarrow> fl list \<Rightarrow> fl list \<Rightarrow> fl list \<Rightarrow> fl list \<Rightarrow> fl list \<Rightarrow> fl list" where
  "noi_of d ps ws crs sbs inss lts ocs =
     noi_col (annual_rent_col ws) (vacancy_loss_col d ws)
       (operating_costs_col crs sbs inss lts ocs
          (maintenance_col d (annual_rent_col ws)) (capex_reserve_col d ps))"

subsection \<open>The working copy after each phase\<close>

definition frame0 ::
  "dataframe \<Rightarrow> fl list \<Rightarrow> fl list \<Rightarrow> fl list \<Rightarrow> fl list \<Rightarrow> fl list \<Rightarrow> fl list \<Rightarrow> fl list
     \<Rightarrow> fl list \<Rightarrow> fl list \<Rightarrow> fl list \<Rightarrow> dataframe" where
  "frame0 df ps ws crs sbs inss lts ocs cirs lvs tys =
     setitem ''loan_term_years'' (NumCol tys)
     (setitem ''lvr'' (NumCol lvs)
     (setitem ''current_interest_rate'' (NumCol cirs)
     (setitem ''other_costs'' (NumCol ocs)
     (setitem ''land_tax'' (NumCol lts)
     (setitem ''insurance'' (NumCol inss)
     (setitem ''strata_body_corp'' (NumCol sbs)
     (setitem ''council_rates'' (NumCol crs)
     (setitem ''weekly_rent'' (NumCol ws)
     (setitem ''price'' (NumCol ps) df)))))))))"

definition frame1 ::
  "dataframe \<Rightarrow> fl list \<Rightarrow> fl list \<Rightarrow> fl list \<Rightarrow> fl list \<Rightarrow> fl list \<Rightarrow> fl list \<Rightarrow> dataframe" where
  "frame1 F ar vl mt cx oc noi =
     setitem ''NOI'' (NumCol noi)
     (setitem ''operating_costs'' (NumCol oc)
     (setitem ''capex_reserve'' (NumCol cx)
     (setitem ''maintenance'' (NumCol mt)
     (setitem ''vacancy_loss'' (NumCol vl)
     (setitem ''annual_rent'' (NumCol ar) F)))))"

definition frame2 ::
  "dataframe \<Rightarrow> fl list \<Rightarrow> fl list \<Rightarrow> fl list \<Rightarrow> fl list \<Rightarrow> fl list \<Rightarrow> fl list \<Rightarrow> fl list
     \<Rightarrow> fl list \<Rightarrow> fl list \<Rightarrow> string list \<Rightarrow> dataframe" where
  "frame2 F la eq sr ads cash sc gy ny ds sig =
     setitem ''signal'' (StrCol sig)
     (setitem ''DSCR_stress'' (NumCol ds)
     (setitem ''net_yield_percent'' (NumCol ny)
     (setitem ''gross_yield_percent'' (NumCol gy)
     (setitem ''sCoC_percent'' (NumCol sc)
     (setitem ''cashflow_after_debt_stress'' (NumCol cash)
     (setitem ''annual_debt_service_stress'' (NumCol ads)
     (setitem ''stress_rate'' (NumCol sr)
     (setitem ''equity'' (NumCol eq)
     (setitem ''loan_amount'' (NumCol la) F)))))))))"

definition final_frame ::
  "defaults \<Rightarrow> dataframe \<Rightarrow> fl list \<Rightarrow> fl list \<Rightarrow> fl list \<Rightarrow> fl list \<Rightarrow> fl list \<Rightarrow> fl list
     \<Rightarrow> fl list \<Rightarrow> fl list \<Rightarrow> fl list \<Rightarrow> fl list \<Rightarrow> fl list \<Rightarrow> dataframe" where
  "final_frame d df ps ws crs sbs inss lts ocs cirs lvs tys ads =
     (let ar = annual_rent_col ws;
          vl = vacancy_loss_col d ws;
          mt = maintenance_col d ar;
          cx = capex_reserve_col d ps;
          oc = operating_costs_col crs sbs inss lts ocs mt cx;
          noi = noi_col ar vl oc;
          eq = equity_col d ps lvs;
          cash = cashflow_col noi ads;
          sc = percent_col cash eq;
          ds = dscr_col noi ads
      in frame2 (frame1 (frame0 df ps ws crs sbs inss lts ocs cirs lvs tys) ar vl mt cx oc noi)
           (loan_amount_col ps lvs) eq (stress_rate_col d cirs) ads cash sc
           (percent_col ar ps) (percent_col noi ps) ds (signal_col (nrows df) sc ds))"

subsection \<open>The cells of one row\<close>

definition noi_at :: "defaults \<Rightarrow> fl \<Rightarrow> fl \<Rightarrow> fl \<Rightarrow> fl \<Rightarrow> fl \<Rightarrow> fl \<Rightarrow> fl \<Rightarrow> fl" where
  "noi_at d p w cr sb ins lt oc =
     fl_sub (fl_sub (fl_mul w (Fin 52)) (fl_mul w (Fin (vacancy_weeks d))))
       (fl_add (fl_add (fl_add (fl_add (fl_add (fl_add cr sb) ins) lt) oc)
          (fl_mul (Fin (maintenance_rate d)) (fl_mul w (Fin 52))))
          (fl_mul (Fin (capex_rate d)) p))"

definition equity_at :: "defaults \<Rightarrow> fl \<Rightarrow> fl \<Rightarrow> fl" where
  "equity_at d p lv = fl_add (fl_mul p (fl_sub (Fin 1) lv)) (fl_mul p (Fin (purchase_cost_rate d)))"

definition stress_at :: "defaults \<Rightarrow> fl \<Rightarrow> fl" where
  "stress_at d cir = fl_add cir (Fin (stress_bps d / 10000))"

definition scoc_at :: "fl \<Rightarrow> fl \<Rightarrow> fl \<Rightarrow> fl" where
  "scoc_at noi a eq = fl_mul (Fin 100) (np_div (fl_sub noi a) eq)"

subsection \<open>The payment as a multiple of the loan\<close>



subsection \<open>Example tables\<close>


definition sample :: dataframe where
  "sample = \<lparr>nrows = 2, columns =
     [(''price'', NumCol [Fin 454000, Fin 500000]),
      (''weekly_rent'', NumCol [Fin 100, Fin 800]),
      (''lvr'', NumCol [Fin 0, Fin 0])]\<rparr>"


section \<open>Properties of the amortisation helper\<close>

lemma bindE_Inr [simp]: "bindE (Inr x) f = f x"
  by (simp add: bindE_def)

lemma bindE_Inl [simp]: "bindE (Inl e) f = Inl e"
  by (simp add: bindE_def)

lemma bindE_eq_Inr: "bindE m f = Inr y \<longleftrightarrow> (\<exists>x. m = Inr x \<and> f x = Inr y)"
  by (cases m) simp_all

lemma power_gt_one: "0 < (r::real) \<Longrightarrow> 0 < n \<Longrightarrow> 1 < (1 + r) ^ n"
  by (simp add: one_less_power)

lemma annual_pni_finite:
  assumes "0 < a" and "0 < years"
  shows "annual_pni (Fin L) (Fin a) years =
    Inr (Fin (L * (a / 12 * (1 + a / 12) ^ nat (years * 12)) /
              ((1 + a / 12) ^ nat (years * 12) - 1) * 12))"
proof -
  define r where "r = a / 12"
  define P where "P = (1 + r) ^ nat (years * 12)"
  define N where "N = L * (r * P)"
  define D where "D = P - 1"
  have n: "0 < nat (years * 12)" using assms by simp
  have "0 < r" using assms by (simp add: r_def)
  then have P: "1 < P"
    unfolding P_def using n by (rule power_gt_one)
  then have D: "D \<noteq> 0" by (simp add: D_def)
  have rate: "py_div (Fin a) (Fin 12) = Inr (Fin r)"
    by (simp add: py_div_def r_def)
  have pow: "py_pow (fl_add (Fin 1) (Fin r)) (years * 12) = Inr (Fin P)"
    using assms by (simp add: py_pow_def P_def)
  have num: "Fin (L * (r * P)) = Fin N"
    by (simp add: N_def)
  have den: "fl_sub (Fin P) (Fin 1) = Fin D"
    by (simp add: fl_sub_def D_def)
  have pay: "py_div (Fin N) (Fin D) = Inr (Fin (N / D))"
    using D by (simp add: py_div_def)
  have "\<not> fl_le (Fin a) (Fin 0)" using assms by simp
  then have "annual_pni (Fin L) (Fin a) years = Inr (Fin (N / D * 12))"
    unfolding annual_pni_def Let_def
    by (simp only: if_False rate pow num den pay bindE_Inr fl_mul.simps)
  then show ?thesis by (simp only: N_def D_def P_def r_def)
qed

text \<open>
  C1. With an annual rate at or below zero and a positive number of years, the payment is
  the loan amount divided by the years: for every loan amount as the division of floats
  gives it, and for a finite loan amount \<open>L\<close> the real quotient \<open>L / years\<close>.
\<close>

theorem annual_pni_nonpositive_rate:
  assumes "fl_le annual_rate (Fin 0)" and "0 < years"
  shows "annual_pni loan_amount annual_rate years = Inr (np_div loan_amount (Fin (of_int years)))
    \<and> (\<forall>L. loan_amount = Fin L \<longrightarrow>
          annual_pni loan_amount annual_rate years = Inr (Fin (L / of_int years)))"
  using assms by (simp add: annual_pni_def py_div_def)

theorem annual_pni_nonpositive_rate_witness:
  "fl_le (Fin (-1)) (Fin 0) \<and> (0::int) < 30 \<and> annual_pni (Fin 720000) (Fin (-1)) 30 = Inr (Fin 24000)"
  using annual_pni_nonpositive_rate [of "Fin (-1)" 30 "Fin 720000"] by simp



section \<open>Frames and statements\<close>

lemma bindE_assoc: "bindE (bindE m f) g = bindE m (\<lambda>x. bindE (f x) g)"
  by (cases m) simp_all

lemma getitem_setitem [simp]:
  "getitem c (setitem c' s df) = (if c = c' then Inr s else getitem c df)"
  by (simp add: getitem_def setitem_def update_conv')

lemma nrows_setitem [simp]: "nrows (setitem c s df) = nrows df"
  by (simp add: setitem_def)

lemma has_column_getitem: "has_column c df \<longleftrightarrow> (\<exists>s. getitem c df = Inr s)"
proof -
  have "has_column c df \<longleftrightarrow> map_of (columns df) c \<noteq> None"
    by (simp add: has_column_def map_of_eq_None_iff)
  then show ?thesis
    by (cases "map_of (columns df) c") (simp_all add: getitem_def)
qed

lemma has_column_setitem [simp]:
  "has_column c (setitem c' s df) \<longleftrightarrow> c = c' \<or> has_column c df"
  by (auto simp: has_column_getitem)

lemma setitem_twice [simp]: "setitem c s (setitem c s' df) = setitem c s df"
  by (simp add: setitem_def)

lemma row_at_setitem [simp]:
  "row_at (setitem c' s df) i c = (if c = c' then Some (cell_at s i) else row_at df i c)"
  by (simp add: row_at_def setitem_def update_conv')

lemma row_at_getitem:
  "row_at df i c = (case getitem c df of Inl e \<Rightarrow> None | Inr s \<Rightarrow> Some (cell_at s i))"
  by (simp add: row_at_def getitem_def split: option.splits)

lemma row_num_at [simp]:
  "getitem c F = Inr (NumCol xs) \<Longrightarrow> row_num (row_at F i) c = Inr (xs ! i)"
  by (simp add: row_num_def row_at_getitem)

lemma wf_getitem_len: "wf_frame df \<Longrightarrow> getitem c df = Inr s \<Longrightarrow> col_len s = nrows df"
  by (auto simp: wf_frame_def getitem_def list_all_iff split: option.splits dest: map_of_SomeD)

lemma seqE_append: "seqE (a @ b) df = bindE (seqE a df) (seqE b)"
  by (induction a arbitrary: df) (simp_all add: bindE_def split: sum.splits)

lemma seqE_assign_cons:
  "seqE (assign c e # ss) df = bindE (e df) (\<lambda>xs. seqE ss (setitem c (NumCol xs) df))"
  by (simp add: assign_def bindE_assoc)

lemma seqE_assign_apply_cons:
  "seqE (assign_apply c f # ss) df =
     (if nrows df = 0 then Inl ValueError
      else bindE (apply_rows f df) (\<lambda>xs. seqE ss (setitem c (NumCol xs) df)))"
  by (simp add: assign_apply_def assign_def bindE_assoc)

lemma seqE_assign_str_cons:
  "seqE (assign_str c e # ss) df = bindE (e df) (\<lambda>xs. seqE ss (setitem c (StrCol xs) df))"
  by (simp add: assign_str_def bindE_assoc)

lemma input_col_setitem [simp]:
  "c \<noteq> c' \<Longrightarrow> input_col f v c (setitem c' s df) = input_col f v c df"
  by (simp add: input_col_def split: sum.splits)

lemma col_float_setitem [simp]: "c \<noteq> c' \<Longrightarrow> col_float c (setitem c' s df) = col_float c df"
  by (simp add: col_float_def)

lemma optional_pair:
  "seqE [if_absent c (assign_scalar c v), assign c (\<lambda>df. bindE (getitem c df) f)] df
     = bindE (input_col f v c df) (\<lambda>xs. Inr (setitem c (NumCol xs) df))"
  by (cases "getitem c df")
     (auto simp: if_absent_def assign_scalar_def assign_def input_col_def has_column_getitem bindE_def
        split: sum.splits)

lemma seqE_pair_cons:
  "seqE (if_absent c (assign_scalar c v) # assign c (\<lambda>df. bindE (getitem c df) f) # ss) df
     = bindE (input_col f v c df) (\<lambda>xs. seqE ss (setitem c (NumCol xs) df))"
  using optional_pair [of c v f df]
    seqE_append [of "[if_absent c (assign_scalar c v), assign c (\<lambda>df. bindE (getitem c df) f)]" ss df]
  by (simp add: bindE_assoc)

lemma col_fillna_float_alt:
  "col_fillna_float v c = (\<lambda>df. bindE (getitem c df) (\<lambda>s. astype_float (fillna v s)))"
  by (rule ext) (simp add: col_fillna_float_def)

lemma col_float_alt: "col_float c = (\<lambda>df. bindE (getitem c df) astype_float)"
  by (rule ext) (simp add: col_float_def)

lemma col_int_alt: "col_int c = (\<lambda>df. bindE (getitem c df) astype_int)"
  by (rule ext) (simp add: col_int_def)

lemmas pair_simps =
  seqE_pair_cons [of _ _ astype_float, folded col_float_alt]
  seqE_pair_cons [of _ _ "\<lambda>s. astype_float (fillna v s)" for v, folded col_fillna_float_alt]
  seqE_pair_cons [of _ _ astype_int, folded col_int_alt]

lemma inputs_eq:
  "seqE (inputs d @ rest) df =
     bindE (col_float ''price'' df) (\<lambda>ps.
     bindE (col_float ''weekly_rent'' df) (\<lambda>ws.
     bindE (cost_in ''council_rates'' df) (\<lambda>crs.
     bindE (cost_in ''strata_body_corp'' df) (\<lambda>sbs.
     bindE (cost_in ''insurance'' df) (\<lambda>inss.
     bindE (cost_in ''land_tax'' df) (\<lambda>lts.
     bindE (cost_in ''other_costs'' df) (\<lambda>ocs.
     bindE (input_col astype_float (Fin (65 / 1000)) ''current_interest_rate'' df) (\<lambda>cirs.
     bindE (input_col astype_float (Fin (lvr d)) ''lvr'' df) (\<lambda>lvs.
     bindE (input_col astype_int (Fin (loan_term_years d)) ''loan_term_years'' df) (\<lambda>tys.
     seqE rest (frame0 df ps ws crs sbs inss lts ocs cirs lvs tys)))))))))))"
  by (simp add: inputs_def cost_columns_def cost_column_def pair_simps seqE_assign_cons frame0_def
      del: seqE.simps(2))

section \<open>The columns that the calculator derives\<close>

lemma label_at:
  "getitem ''sCoC_percent'' F = Inr (NumCol s) \<Longrightarrow> getitem ''DSCR_stress'' F = Inr (NumCol x) \<Longrightarrow>
     label (row_at F i) = Inr (signal_of (s ! i) (x ! i))"
  by (simp add: label_def both_ge_def signal_of_def)

lemma traverse_Inr: "traverse (\<lambda>x. Inr (f x)) xs = Inr (map f xs)"
  by (induction xs) simp_all

lemma income_eq:
  "seqE (income_and_costs d @ rest) (frame0 df ps ws crs sbs inss lts ocs cirs lvs tys) =
     seqE rest
       (frame1 (frame0 df ps ws crs sbs inss lts ocs cirs lvs tys)
          (annual_rent_col ws) (vacancy_loss_col d ws)
          (maintenance_col d (annual_rent_col ws)) (capex_reserve_col d ps)
          (operating_costs_col crs sbs inss lts ocs
             (maintenance_col d (annual_rent_col ws)) (capex_reserve_col d ps))
          (noi_col (annual_rent_col ws) (vacancy_loss_col d ws)
             (operating_costs_col crs sbs inss lts ocs
                (maintenance_col d (annual_rent_col ws)) (capex_reserve_col d ps))))"
  by (simp add: income_and_costs_def frame0_def frame1_def seqE_assign_cons col_def map1_def
      map2e_def annual_rent_col_def vacancy_loss_col_def maintenance_col_def
      capex_reserve_col_def operating_costs_col_def noi_col_def del: seqE.simps(2))

lemma financing_eq:
  "seqE (financing d @ context_metrics @ signal)
       (frame1 (frame0 df ps ws crs sbs inss lts ocs cirs lvs tys) ar vl mt cx oc noi) =
     (if nrows df = 0 then Inl ValueError
      else
        bindE (traverse (\<lambda>i. bindE (py_int (tys ! i))
                 (annual_pni (loan_amount_col ps lvs ! i) (stress_rate_col d cirs ! i)))
               [0..<nrows df])
          (\<lambda>ads. Inr (frame2 (frame1 (frame0 df ps ws crs sbs inss lts ocs cirs lvs tys) ar vl mt cx oc noi)
             (loan_amount_col ps lvs) (equity_col d ps lvs) (stress_rate_col d cirs) ads
             (cashflow_col noi ads) (percent_col (cashflow_col noi ads) (equity_col d ps lvs))
             (percent_col ar ps) (percent_col noi ps) (dscr_col noi ads)
             (signal_col (nrows df) (percent_col (cashflow_col noi ads) (equity_col d ps lvs))
                (dscr_col noi ads)))))"
  by (simp add: financing_def context_metrics_def signal_def frame0_def frame1_def frame2_def
      seqE_assign_cons seqE_assign_apply_cons seqE_assign_str_cons col_def map1_def map2e_def
      apply_rows_def debt_service_def label_at traverse_Inr
      loan_amount_col_def equity_col_def stress_rate_col_def cashflow_col_def percent_col_def
      dscr_col_def signal_col_def del: seqE.simps(2))

lemma body_eq:
  "seqE (body d) df =
     bindE (col_float ''price'' df) (\<lambda>ps.
     bindE (col_float ''weekly_rent'' df) (\<lambda>ws.
     bindE (cost_in ''council_rates'' df) (\<lambda>crs.
     bindE (cost_in ''strata_body_corp'' df) (\<lambda>sbs.
     bindE (cost_in ''insurance'' df) (\<lambda>inss.
     bindE (cost_in ''land_tax'' df) (\<lambda>lts.
     bindE (cost_in ''other_costs'' df) (\<lambda>ocs.
     bindE (input_col astype_float (Fin (65 / 1000)) ''current_interest_rate'' df) (\<lambda>cirs.
     bindE (input_col astype_float (Fin (lvr d)) ''lvr'' df) (\<lambda>lvs.
     bindE (input_col astype_int (Fin (loan_term_years d)) ''loan_term_years'' df) (\<lambda>tys.
     if nrows df = 0 then Inl ValueError
     else
       bindE (traverse (\<lambda>i. bindE (py_int (tys ! i))
                (annual_pni (loan_amount_col ps lvs ! i) (stress_rate_col d cirs ! i)))
              [0..<nrows df])
         (\<lambda>ads. Inr (final_frame d df ps ws crs sbs inss lts ocs cirs lvs tys ads))))))))))))"
  unfolding body_def inputs_eq income_eq financing_eq final_frame_def Let_def ..

lemma body_success:
  assumes "seqE (body d) df = Inr df'"
  obtains ps ws crs sbs inss lts ocs cirs lvs tys ads where
    "col_float ''price'' df = Inr ps"
    "col_float ''weekly_rent'' df = Inr ws"
    "cost_in ''council_rates'' df = Inr crs"
    "cost_in ''strata_body_corp'' df = Inr sbs"
    "cost_in ''insurance'' df = Inr inss"
    "cost_in ''land_tax'' df = Inr lts"
    "cost_in ''other_costs'' df = Inr ocs"
    "input_col astype_float (Fin (65 / 1000)) ''current_interest_rate'' df = Inr cirs"
    "input_col astype_float (Fin (lvr d)) ''lvr'' df = Inr lvs"
    "input_col astype_int (Fin (loan_term_years d)) ''loan_term_years'' df = Inr tys"
    "nrows df \<noteq> 0"
    "traverse (\<lambda>i. bindE (py_int (tys ! i))
        (annual_pni (loan_amount_col ps lvs ! i) (stress_rate_col d cirs ! i)))
       [0..<nrows df] = Inr ads"
    "df' = final_frame d df ps ws crs sbs inss lts ocs cirs lvs tys ads"
  using assms unfolding body_eq
  by (auto simp: bindE_eq_Inr split: if_splits)

lemma traverse_length: "traverse f xs = Inr ys \<Longrightarrow> length ys = length xs"
  by (induction xs arbitrary: ys) (auto simp: bindE_eq_Inr)

lemma traverse_nth:
  "traverse f xs = Inr ys \<Longrightarrow> i < length xs \<Longrightarrow> f (xs ! i) = Inr (ys ! i)"
proof (induction xs arbitrary: ys i)
  case Nil
  then show ?case by simp
next
  case (Cons x xs)
  then obtain y ys' where y: "f x = Inr y" "traverse f xs = Inr ys'" "ys = y # ys'"
    by (auto simp: bindE_eq_Inr)
  show ?case
  proof (cases i)
    case 0
    then show ?thesis using y by simp
  next
    case (Suc j)
    then show ?thesis using y Cons.IH [of ys' j] Cons.prems(2) by simp
  qed
qed

lemma traverse_upt_nth:
  "traverse f [0..<n] = Inr ys \<Longrightarrow> i < n \<Longrightarrow> f i = Inr (ys ! i)"
  using traverse_nth [of f "[0..<n]" ys i] by simp

section \<open>Lengths of the input columns\<close>

lemma astype_float_len: "astype_float s = Inr xs \<Longrightarrow> length xs = col_len s"
  by (cases s) (auto split: if_splits)

lemma astype_int_len: "astype_int s = Inr xs \<Longrightarrow> length xs = col_len s"
  by (cases s) (auto split: if_splits)

lemma col_len_fillna [simp]: "col_len (fillna v s) = col_len s"
  by (cases s) simp_all

lemma col_float_len: "wf_frame df \<Longrightarrow> col_float c df = Inr xs \<Longrightarrow> length xs = nrows df"
  by (auto simp: col_float_def bindE_eq_Inr) (metis wf_getitem_len astype_float_len)

lemma input_col_len:
  assumes "wf_frame df" and "input_col f v c df = Inr xs"
    and "\<And>s ys. f s = Inr ys \<Longrightarrow> length ys = col_len s"
  shows "length xs = nrows df"
proof (cases "getitem c df")
  case (Inl e)
  then have "f (NumCol (replicate (nrows df) v)) = Inr xs"
    using assms(2) by (simp add: input_col_def)
  from assms(3) [OF this] show ?thesis by simp
next
  case (Inr s)
  then have "f s = Inr xs" using assms(2) by (simp add: input_col_def)
  from assms(3) [OF this] wf_getitem_len [OF assms(1) Inr] show ?thesis by simp
qed

lemma cost_in_len: "wf_frame df \<Longrightarrow> cost_in c df = Inr xs \<Longrightarrow> length xs = nrows df"
  by (erule input_col_len, assumption) (auto dest: astype_float_len)

lemma float_in_len:
  "wf_frame df \<Longrightarrow> input_col astype_float v c df = Inr xs \<Longrightarrow> length xs = nrows df"
  by (erule input_col_len, assumption) (auto dest: astype_float_len)

lemma int_in_len:
  "wf_frame df \<Longrightarrow> input_col astype_int v c df = Inr xs \<Longrightarrow> length xs = nrows df"
  by (erule input_col_len, assumption) (auto dest: astype_int_len)

section \<open>The store\<close>

lemma exec_frame:
  "exec r s h = (res, h') \<Longrightarrow> length h' = length h \<and> (\<forall>j. j \<noteq> r \<longrightarrow> h' ! j = h ! j)"
  by (auto simp: exec_def split: sum.splits)

lemma run_frame:
  "run r ss h = (res, h') \<Longrightarrow> length h' = length h \<and> (\<forall>j. j \<noteq> r \<longrightarrow> h' ! j = h ! j)"
proof (induction ss arbitrary: h)
  case Nil
  then show ?case by simp
next
  case (Cons s ss)
  obtain r1 h1 where e: "exec r s h = (r1, h1)" by (cases "exec r s h")
  note f = exec_frame [OF e]
  show ?case
  proof (cases r1)
    case (Inl err)
    then show ?thesis using Cons.prems e f by simp
  next
    case (Inr u)
    then have "run r ss h1 = (res, h')" using Cons.prems e by simp
    from Cons.IH [OF this] f show ?thesis by simp
  qed
qed

lemma run_success:
  "r < length h \<Longrightarrow> run r ss h = (Inr u, h') \<Longrightarrow> seqE ss (h ! r) = Inr (h' ! r)"
proof (induction ss arbitrary: h)
  case Nil
  then show ?case by simp
next
  case (Cons s ss)
  obtain r1 h1 where e: "exec r s h = (r1, h1)" by (cases "exec r s h")
  show ?case
  proof (cases "s (h ! r)")
    case (Inl err)
    then show ?thesis using Cons.prems by (simp add: exec_def)
  next
    case (Inr d)
    then have "run r ss (h[r := d]) = (Inr u, h')" using Cons.prems by (simp add: exec_def)
    from Cons.IH [OF _ this] Cons.prems(1) Inr show ?thesis by simp
  qed
qed

lemma compute_scoc_success:
  assumes "compute_scoc d df0 h = (Inr res, h')" and "df0 < length h"
  obtains work out where
    "h' = h @ [work, out]" "res = Suc (length h)"
    "seqE (body d) (h ! df0) = Inr work"
    "select (filter (\<lambda>c. has_column c work) order) work = Inr out"
proof -
  let ?h1 = "h @ [h ! df0]"
  obtain r2 h2 where run: "run (length h) (body d) ?h1 = (r2, h2)"
    by (cases "run (length h) (body d) ?h1")
  from assms(1) run obtain u where r2: "r2 = Inr u"
    by (cases r2) (simp_all add: compute_scoc_def copy_def)
  note fr = run_frame [OF run]
  have len: "length h2 = Suc (length h)" using fr by simp
  have "seqE (body d) (?h1 ! length h) = Inr (h2 ! length h)"
    using run r2 by (intro run_success) simp_all
  then have body: "seqE (body d) (h ! df0) = Inr (h2 ! length h)" by simp
  have h2: "h2 = h @ [h2 ! length h]"
  proof (rule nth_equalityI)
    show "length h2 = length (h @ [h2 ! length h])" using len by simp
  next
    fix i assume "i < length h2"
    then show "h2 ! i = (h @ [h2 ! length h]) ! i"
      using fr len by (cases "i = length h") (auto simp: nth_append)
  qed
  from assms(1) run r2 obtain out where
    sel: "select (filter (\<lambda>c. has_column c (h2 ! length h)) order) (h2 ! length h) = Inr out"
    and res: "res = length h2" "h' = h2 @ [out]"
    by (auto simp: compute_scoc_def copy_def split: sum.splits)
  show thesis
  proof (rule that [of "h2 ! length h" out])
    show "h' = h @ [h2 ! length h, out]" using res(2) h2 by (metis append_Cons append_Nil append_assoc)
    show "res = Suc (length h)" using res(1) len by simp
    show "seqE (body d) (h ! df0) = Inr (h2 ! length h)" by (rule body)
    show "select (filter (\<lambda>c. has_column c (h2 ! length h)) order) (h2 ! length h) = Inr out"
      by (rule sel)
  qed
qed

lemma run_complete:
  "r < length h \<Longrightarrow> seqE ss (h ! r) = Inr d \<Longrightarrow> run r ss h = (Inr (), h[r := d])"
proof (induction ss arbitrary: h)
  case Nil
  then have "d = h ! r" by simp
  then show ?case by simp
next
  case (Cons s ss)
  from Cons.prems(2) obtain d1 where d1: "s (h ! r) = Inr d1" "seqE ss d1 = Inr d"
    by (auto simp: bindE_eq_Inr)
  have "run r ss (h[r := d1]) = (Inr (), h[r := d1, r := d])"
    using Cons.prems(1) d1(2) by (intro Cons.IH) simp_all
  then show ?case using d1(1) by (simp add: exec_def)
qed

lemma compute_scoc_intro:
  assumes "df0 < length h" and "seqE (body d) (h ! df0) = Inr work"
    and "select (filter (\<lambda>c. has_column c work) order) work = Inr out"
  shows "compute_scoc d df0 h = (Inr (Suc (length h)), h @ [work, out])"
proof -
  have "run (length h) (body d) (h @ [h ! df0]) = (Inr (), (h @ [h ! df0])[length h := work])"
    using assms(2) by (intro run_complete) simp_all
  then show ?thesis using assms(3) by (simp add: compute_scoc_def copy_def)
qed

section \<open>The columns of the result\<close>

lemma traverse_named:
  "traverse (\<lambda>c. bindE (getitem c df) (\<lambda>s. Inr (c, s))) cs = Inr named \<Longrightarrow>
     map fst named = cs \<and> (\<forall>(c, s) \<in> set named. getitem c df = Inr s)"
  by (induction cs arbitrary: named) (auto simp: bindE_eq_Inr)

lemma select_success:
  assumes "select cs df = Inr out"
  shows "nrows out = nrows df" and "map fst (columns out) = cs"
    and "distinct cs \<Longrightarrow> getitem c out = (if c \<in> set cs then getitem c df else Inl (KeyError c))"
proof -
  from assms obtain named where
    tr: "traverse (\<lambda>c. bindE (getitem c df) (\<lambda>s. Inr (c, s))) cs = Inr named"
    and out: "out = \<lparr>nrows = nrows df, columns = named\<rparr>"
    by (auto simp: select_def bindE_eq_Inr)
  note nm = traverse_named [OF tr]
  show "nrows out = nrows df" using out by simp
  show "map fst (columns out) = cs" using out nm by simp
  assume dist: "distinct cs"
  show "getitem c out = (if c \<in> set cs then getitem c df else Inl (KeyError c))"
  proof (cases "map_of named c")
    case None
    then have "c \<notin> set cs" using nm by (metis map_of_eq_None_iff set_map)
    then show ?thesis using None out by (simp add: getitem_def)
  next
    case (Some s)
    then have "(c, s) \<in> set named" by (rule map_of_SomeD)
    then have "getitem c df = Inr s" "c \<in> set cs" using nm by force+
    then show ?thesis using Some out by (simp add: getitem_def)
  qed
qed

lemma final_numeric:
  assumes W: "W = final_frame d df ps ws crs sbs inss lts ocs cirs lvs tys ads"
  shows "getitem ''price'' W = Inr (NumCol ps)"
    and "getitem ''weekly_rent'' W = Inr (NumCol ws)"
    and "getitem ''council_rates'' W = Inr (NumCol crs)"
    and "getitem ''strata_body_corp'' W = Inr (NumCol sbs)"
    and "getitem ''insurance'' W = Inr (NumCol inss)"
    and "getitem ''land_tax'' W = Inr (NumCol lts)"
    and "getitem ''other_costs'' W = Inr (NumCol ocs)"
    and "getitem ''current_interest_rate'' W = Inr (NumCol cirs)"
    and "getitem ''lvr'' W = Inr (NumCol lvs)"
    and "getitem ''loan_term_years'' W = Inr (NumCol tys)"
    and "getitem ''loan_amount'' W = Inr (NumCol (loan_amount_col ps lvs))"
    and "getitem ''equity'' W = Inr (NumCol (equity_col d ps lvs))"
    and "getitem ''stress_rate'' W = Inr (NumCol (stress_rate_col d cirs))"
    and "getitem ''annual_debt_service_stress'' W = Inr (NumCol ads)"
    and "nrows W = nrows df"
    and "getitem ''address'' W = getitem ''address'' df"
    and "has_column ''address'' W = has_column ''address'' df"
  unfolding W final_frame_def Let_def frame0_def frame1_def frame2_def
  by simp_all

lemma final_derived:
  assumes W: "W = final_frame d df ps ws crs sbs inss lts ocs cirs lvs tys ads"
  shows "getitem ''annual_rent'' W = Inr (NumCol (annual_rent_col ws))"
    and "getitem ''vacancy_loss'' W = Inr (NumCol (vacancy_loss_col d ws))"
    and "getitem ''maintenance'' W = Inr (NumCol (maintenance_col d (annual_rent_col ws)))"
    and "getitem ''capex_reserve'' W = Inr (NumCol (capex_reserve_col d ps))"
    and "getitem ''operating_costs'' W =
           Inr (NumCol (operating_costs_col crs sbs inss lts ocs
             (maintenance_col d (annual_rent_col ws)) (capex_reserve_col d ps)))"
    and "getitem ''NOI'' W = Inr (NumCol (noi_of d ps ws crs sbs inss lts ocs))"
    and "getitem ''cashflow_after_debt_stress'' W =
           Inr (NumCol (cashflow_col (noi_of d ps ws crs sbs inss lts ocs) ads))"
    and "getitem ''sCoC_percent'' W =
           Inr (NumCol (percent_col (cashflow_col (noi_of d ps ws crs sbs inss lts ocs) ads)
             (equity_col d ps lvs)))"
    and "getitem ''gross_yield_percent'' W = Inr (NumCol (percent_col (annual_rent_col ws) ps))"
    and "getitem ''net_yield_percent'' W =
           Inr (NumCol (percent_col (noi_of d ps ws crs sbs inss lts ocs) ps))"
    and "getitem ''DSCR_stress'' W = Inr (NumCol (dscr_col (noi_of d ps ws crs sbs inss lts ocs) ads))"
    and "getitem ''signal'' W =
           Inr (StrCol (signal_col (nrows df)
             (percent_col (cashflow_col (noi_of d ps ws crs sbs inss lts ocs) ads) (equity_col d ps lvs))
             (dscr_col (noi_of d ps ws crs sbs inss lts ocs) ads)))"
  unfolding W final_frame_def Let_def frame0_def frame1_def frame2_def noi_of_def
  by simp_all

lemma final_order:
  "filter (\<lambda>c. has_column c (final_frame d df ps ws crs sbs inss lts ocs cirs lvs tys ads)) order =
     (if has_column ''address'' df then order else tl order)"
  unfolding final_frame_def Let_def frame0_def frame1_def frame2_def order_def
  by simp

lemma distinct_order: "distinct order"
  by (simp add: order_def)

section \<open>What a call that returns has computed\<close>


lemma in_tl_order:
  "c \<in> set (tl order) \<longleftrightarrow> c \<in> set order \<and> c \<noteq> ''address''"
  by (auto simp: order_def)

lemma row_at_cong_getitem: "getitem c A = getitem c B \<Longrightarrow> row_at A i c = row_at B i c"
  by (simp add: row_at_getitem)

lemma compute_scoc_result:
  assumes "compute_scoc d df0 h = (Inr res, h')" and "df0 < length h" and "wf_frame (h ! df0)"
  obtains ps ws crs sbs inss lts ocs cirs lvs tys ads where
    "col_float ''price'' (h ! df0) = Inr ps"
    "col_float ''weekly_rent'' (h ! df0) = Inr ws"
    "cost_in ''council_rates'' (h ! df0) = Inr crs"
    "cost_in ''strata_body_corp'' (h ! df0) = Inr sbs"
    "cost_in ''insurance'' (h ! df0) = Inr inss"
    "cost_in ''land_tax'' (h ! df0) = Inr lts"
    "cost_in ''other_costs'' (h ! df0) = Inr ocs"
    "input_col astype_float (Fin (65 / 1000)) ''current_interest_rate'' (h ! df0) = Inr cirs"
    "input_col astype_float (Fin (lvr d)) ''lvr'' (h ! df0) = Inr lvs"
    "input_col astype_int (Fin (loan_term_years d)) ''loan_term_years'' (h ! df0) = Inr tys"
    "nrows (h ! df0) \<noteq> 0"
    "\<And>i. i < nrows (h ! df0) \<Longrightarrow>
       bindE (py_int (tys ! i))
         (annual_pni (loan_amount_col ps lvs ! i) (stress_rate_col d cirs ! i)) = Inr (ads ! i)"
    "length ps = nrows (h ! df0)" "length ws = nrows (h ! df0)" "length crs = nrows (h ! df0)"
    "length sbs = nrows (h ! df0)" "length inss = nrows (h ! df0)" "length lts = nrows (h ! df0)"
    "length ocs = nrows (h ! df0)" "length cirs = nrows (h ! df0)" "length lvs = nrows (h ! df0)"
    "length tys = nrows (h ! df0)" "length ads = nrows (h ! df0)"
    "res = Suc (length h)" "length h' = Suc (Suc (length h))" "take (length h) h' = h"
    "h' ! length h = final_frame d (h ! df0) ps ws crs sbs inss lts ocs cirs lvs tys ads"
    "\<And>c. c \<in> set (tl order) \<Longrightarrow>
       getitem c (h' ! res) =
       getitem c (final_frame d (h ! df0) ps ws crs sbs inss lts ocs cirs lvs tys ads)"
    "getitem ''address'' (h' ! res) = getitem ''address'' (h ! df0)"
    "\<And>c. c \<notin> set order \<Longrightarrow> getitem c (h' ! res) = Inl (KeyError c)"
    "nrows (h' ! res) = nrows (h ! df0)"
    "map fst (columns (h' ! res)) = (if has_column ''address'' (h ! df0) then order else tl order)"
proof -
  let ?df = "h ! df0"
  from compute_scoc_success [OF assms(1,2)] obtain work out where
    h': "h' = h @ [work, out]" and res: "res = Suc (length h)"
    and body: "seqE (body d) ?df = Inr work"
    and sel: "select (filter (\<lambda>c. has_column c work) order) work = Inr out"
    by blast
  from body_success [OF body] obtain ps ws crs sbs inss lts ocs cirs lvs tys ads where
    inp: "col_float ''price'' ?df = Inr ps"
      "col_float ''weekly_rent'' ?df = Inr ws"
      "cost_in ''council_rates'' ?df = Inr crs"
      "cost_in ''strata_body_corp'' ?df = Inr sbs"
      "cost_in ''insurance'' ?df = Inr inss"
      "cost_in ''land_tax'' ?df = Inr lts"
      "cost_in ''other_costs'' ?df = Inr ocs"
      "input_col astype_float (Fin (65 / 1000)) ''current_interest_rate'' ?df = Inr cirs"
      "input_col astype_float (Fin (lvr d)) ''lvr'' ?df = Inr lvs"
      "input_col astype_int (Fin (loan_term_years d)) ''loan_term_years'' ?df = Inr tys"
    and n: "nrows ?df \<noteq> 0"
    and tr: "traverse (\<lambda>i. bindE (py_int (tys ! i))
        (annual_pni (loan_amount_col ps lvs ! i) (stress_rate_col d cirs ! i)))
       [0..<nrows ?df] = Inr ads"
    and work: "work = final_frame d ?df ps ws crs sbs inss lts ocs cirs lvs tys ads"
    by blast
  note wf = assms(3)
  have out_res: "h' ! res = out" using h' res by (simp add: nth_append)
  have cs: "filter (\<lambda>c. has_column c work) order =
      (if has_column ''address'' ?df then order else tl order)"
    unfolding work by (rule final_order)
  have dist: "distinct (filter (\<lambda>c. has_column c work) order)"
    using distinct_order by simp
  note ss = select_success [OF sel]
  have get: "getitem c out =
      (if c \<in> set (filter (\<lambda>c. has_column c work) order) then getitem c work
       else Inl (KeyError c))" for c
    by (rule ss(3) [OF dist])
  show thesis
  proof (rule that [of ps ws crs sbs inss lts ocs cirs lvs tys ads])
    show "\<And>i. i < nrows ?df \<Longrightarrow>
       bindE (py_int (tys ! i))
         (annual_pni (loan_amount_col ps lvs ! i) (stress_rate_col d cirs ! i)) = Inr (ads ! i)"
      using traverse_upt_nth [OF tr] by simp
    show "length ads = nrows ?df" using traverse_length [OF tr] by simp
    show "length ps = nrows ?df" "length ws = nrows ?df"
      using wf inp(1,2) by (auto intro: col_float_len)
    show "length crs = nrows ?df" "length sbs = nrows ?df" "length inss = nrows ?df"
      "length lts = nrows ?df" "length ocs = nrows ?df"
      using wf inp(3-7) by (auto intro: cost_in_len)
    show "length cirs = nrows ?df" "length lvs = nrows ?df"
      using wf inp(8,9) by (auto intro: float_in_len)
    show "length tys = nrows ?df" using wf inp(10) by (auto intro: int_in_len)
    show "res = Suc (length h)" by (rule res)
    show "length h' = Suc (Suc (length h))" using h' by simp
    show "take (length h) h' = h" using h' by simp
    show "h' ! length h = final_frame d ?df ps ws crs sbs inss lts ocs cirs lvs tys ads"
      using h' work by (simp add: nth_append)
    show "nrows (h' ! res) = nrows ?df"
      using ss(1) out_res work final_numeric(15) [OF refl] by simp
    show "map fst (columns (h' ! res)) = (if has_column ''address'' ?df then order else tl order)"
      using ss(2) cs out_res by simp
    show "getitem c (h' ! res) =
       getitem c (final_frame d ?df ps ws crs sbs inss lts ocs cirs lvs tys ads)"
      if "c \<in> set (tl order)" for c
    proof -
      have "c \<in> set (filter (\<lambda>c. has_column c work) order)"
        using that cs by (auto simp: in_tl_order)
      then show ?thesis using get [of c] out_res work by simp
    qed
    show "getitem c (h' ! res) = Inl (KeyError c)" if "c \<notin> set order" for c
      using that get [of c] out_res by simp
    show "getitem ''address'' (h' ! res) = getitem ''address'' ?df"
    proof (cases "has_column ''address'' ?df")
      case True
      then have "''address'' \<in> set (filter (\<lambda>c. has_column c work) order)"
        using cs by (simp add: order_def)
      then show ?thesis
        using get [of "''address''"] out_res work final_numeric(16) [OF refl] by simp
    next
      case False
      then have "''address'' \<notin> set (filter (\<lambda>c. has_column c work) order)"
        using cs by (simp add: order_def)
      moreover have "getitem ''address'' ?df = Inl (KeyError ''address'')"
        using False by (cases "getitem ''address'' ?df")
          (auto simp: has_column_getitem getitem_def split: option.splits)
      ultimately show ?thesis using get [of "''address''"] out_res by auto
    qed
  qed (rule inp n)+
qed

section \<open>The caller's table\<close>

text \<open>
  C9. \<^verbatim>\<open>compute_scoc\<close> never changes its input table: whatever the call returns or
  raises, every frame that the store held before the call, the caller's table among them,
  is in the store after the call as it was, with its rows, columns and values. The call
  works on the copy that \<^verbatim>\<open>df.copy()\<close> adds to the store.
\<close>

theorem compute_scoc_keeps_store: "take (length h) (snd (compute_scoc d df0 h)) = h"
proof -
  let ?h1 = "h @ [h ! df0]"
  obtain r2 h2 where run: "run (length h) (body d) ?h1 = (r2, h2)"
    by (cases "run (length h) (body d) ?h1")
  note fr = run_frame [OF run]
  have "take (length h) h2 = h"
  proof (rule nth_equalityI)
    show "length (take (length h) h2) = length h" using fr by simp
  next
    fix i assume "i < length (take (length h) h2)"
    then have i: "i < length h" by simp
    then have "h2 ! i = ?h1 ! i" using fr by simp
    then show "take (length h) h2 ! i = h ! i" using i by (simp add: nth_append)
  qed
  moreover have "length h \<le> length h2" using fr by simp
  ultimately show ?thesis
    using run by (auto simp: compute_scoc_def copy_def split: sum.splits)
qed

section \<open>The cells of a row of the result\<close>

lemma noi_of_nth:
  assumes "i < n" "length ps = n" "length ws = n" "length crs = n" "length sbs = n"
    "length inss = n" "length lts = n" "length ocs = n"
  shows "noi_of d ps ws crs sbs inss lts ocs ! i =
    noi_at d (ps ! i) (ws ! i) (crs ! i) (sbs ! i) (inss ! i) (lts ! i) (ocs ! i)"
  using assms
  by (simp add: noi_of_def noi_col_def annual_rent_col_def vacancy_loss_col_def
      operating_costs_col_def maintenance_col_def capex_reserve_col_def noi_at_def)

lemma length_noi_of:
  assumes "length ps = n" "length ws = n" "length crs = n" "length sbs = n"
    "length inss = n" "length lts = n" "length ocs = n"
  shows "length (noi_of d ps ws crs sbs inss lts ocs) = n"
  using assms
  by (simp add: noi_of_def noi_col_def annual_rent_col_def vacancy_loss_col_def
      operating_costs_col_def maintenance_col_def capex_reserve_col_def)

lemma row_at_num: "getitem c F = Inr (NumCol xs) \<Longrightarrow> row_at F i c = Some (Num (xs ! i))"
  by (simp add: row_at_getitem)

lemma row_at_str: "getitem c F = Inr (StrCol xs) \<Longrightarrow> row_at F i c = Some (Str (xs ! i))"
  by (simp add: row_at_getitem)

text \<open>The cells of row \<open>i\<close> of the frame returned and of the working copy.\<close>

lemma compute_scoc_row:
  assumes run: "compute_scoc d df0 h = (Inr res, h')" and df0: "df0 < length h"
    and wf: "wf_frame (h ! df0)" and i: "i < nrows (h ! df0)"
  obtains ps ws crs sbs inss lts ocs cirs lvs tys p w cr sb ins lt oc cir lv ty a years where
    "col_float ''price'' (h ! df0) = Inr ps" "p = ps ! i"
    "col_float ''weekly_rent'' (h ! df0) = Inr ws" "w = ws ! i"
    "cost_in ''council_rates'' (h ! df0) = Inr crs" "cr = crs ! i"
    "cost_in ''strata_body_corp'' (h ! df0) = Inr sbs" "sb = sbs ! i"
    "cost_in ''insurance'' (h ! df0) = Inr inss" "ins = inss ! i"
    "cost_in ''land_tax'' (h ! df0) = Inr lts" "lt = lts ! i"
    "cost_in ''other_costs'' (h ! df0) = Inr ocs" "oc = ocs ! i"
    "input_col astype_float (Fin (65 / 1000)) ''current_interest_rate'' (h ! df0) = Inr cirs"
    "cir = cirs ! i"
    "input_col astype_float (Fin (lvr d)) ''lvr'' (h ! df0) = Inr lvs" "lv = lvs ! i"
    "input_col astype_int (Fin (loan_term_years d)) ''loan_term_years'' (h ! df0) = Inr tys"
    "ty = tys ! i"
    "py_int ty = Inr years"
    "annual_pni (fl_mul p lv) (stress_at d cir) years = Inr a"
    "row_at (h' ! res) i ''address'' = row_at (h ! df0) i ''address''"
    "row_at (h' ! res) i ''price'' = Some (Num p)"
    "row_at (h' ! res) i ''weekly_rent'' = Some (Num w)"
    "row_at (h' ! res) i ''gross_yield_percent'' =
       Some (Num (fl_mul (Fin 100) (np_div (fl_mul w (Fin 52)) p)))"
    "row_at (h' ! res) i ''net_yield_percent'' =
       Some (Num (fl_mul (Fin 100) (np_div (noi_at d p w cr sb ins lt oc) p)))"
    "row_at (h' ! res) i ''NOI'' = Some (Num (noi_at d p w cr sb ins lt oc))"
    "row_at (h' ! res) i ''loan_amount'' = Some (Num (fl_mul p lv))"
    "row_at (h' ! res) i ''equity'' = Some (Num (equity_at d p lv))"
    "row_at (h' ! res) i ''stress_rate'' = Some (Num (stress_at d cir))"
    "row_at (h' ! res) i ''annual_debt_service_stress'' = Some (Num a)"
    "row_at (h' ! res) i ''cashflow_after_debt_stress'' =
       Some (Num (fl_sub (noi_at d p w cr sb ins lt oc) a))"
    "row_at (h' ! res) i ''sCoC_percent'' =
       Some (Num (scoc_at (noi_at d p w cr sb ins lt oc) a (equity_at d p lv)))"
    "row_at (h' ! res) i ''DSCR_stress'' = Some (Num (np_div (noi_at d p w cr sb ins lt oc) a))"
    "row_at (h' ! res) i ''signal'' =
       Some (Str (signal_of (scoc_at (noi_at d p w cr sb ins lt oc) a (equity_at d p lv))
         (np_div (noi_at d p w cr sb ins lt oc) a)))"
    "\<And>c. c \<notin> set order \<Longrightarrow> row_at (h' ! res) i c = None"
proof -
  let ?n = "nrows (h ! df0)"
  show thesis
  proof (rule compute_scoc_result [OF run df0 wf], goal_cases)
  case (1 ps ws crs sbs inss lts ocs cirs lvs tys ads)
  note inp = 1(1-10) and pay = 1(12) and len = 1(13-23) and out = 1(28) and addr = 1(29)
    and other = 1(30)
  let ?W = "final_frame d (h ! df0) ps ws crs sbs inss lts ocs cirs lvs tys ads"
  let ?noi = "noi_of d ps ws crs sbs inss lts ocs"
  note fn = final_numeric [OF refl, of d "h ! df0" ps ws crs sbs inss lts ocs cirs lvs tys ads]
  note fd = final_derived [OF refl, of d "h ! df0" ps ws crs sbs inss lts ocs cirs lvs tys ads]
  have noi: "?noi ! i = noi_at d (ps ! i) (ws ! i) (crs ! i) (sbs ! i) (inss ! i) (lts ! i) (ocs ! i)"
    using i len by (intro noi_of_nth [where n = ?n]) simp_all
  have lnoi: "length ?noi = ?n"
    using len by (intro length_noi_of) simp_all
  have la: "loan_amount_col ps lvs ! i = fl_mul (ps ! i) (lvs ! i)"
    using i len by (simp add: loan_amount_col_def)
  have sr: "stress_rate_col d cirs ! i = stress_at d (cirs ! i)"
    using i len by (simp add: stress_rate_col_def stress_at_def)
  have eq: "equity_col d ps lvs ! i = equity_at d (ps ! i) (lvs ! i)"
    using i len by (simp add: equity_col_def equity_at_def)
  have leq: "length (equity_col d ps lvs) = ?n"
    using len by (simp add: equity_col_def)
  from pay [OF i] obtain years where
    years: "py_int (tys ! i) = Inr years"
    and a: "annual_pni (fl_mul (ps ! i) (lvs ! i)) (stress_at d (cirs ! i)) years = Inr (ads ! i)"
    unfolding la sr by (auto simp: bindE_eq_Inr)
  have mem: "c \<in> set (tl order)"
    if "c \<in> {''price'', ''weekly_rent'', ''gross_yield_percent'', ''net_yield_percent'', ''NOI'',
         ''loan_amount'', ''equity'', ''stress_rate'', ''annual_debt_service_stress'',
         ''cashflow_after_debt_stress'', ''sCoC_percent'', ''DSCR_stress'', ''signal''}" for c
    using that by (auto simp: order_def)
  have cash: "cashflow_col ?noi ads ! i = fl_sub (?noi ! i) (ads ! i)"
    using i len lnoi by (simp add: cashflow_col_def)
  have sc: "percent_col (cashflow_col ?noi ads) (equity_col d ps lvs) ! i =
      scoc_at (?noi ! i) (ads ! i) (equity_at d (ps ! i) (lvs ! i))"
    using i len lnoi leq eq by (simp add: percent_col_def cashflow_col_def scoc_at_def)
  have ds: "dscr_col ?noi ads ! i = np_div (?noi ! i) (ads ! i)"
    using i len lnoi by (simp add: dscr_col_def)
  show ?thesis
  proof (rule that [of ps "ps ! i" ws "ws ! i" crs "crs ! i" sbs "sbs ! i" inss "inss ! i"
        lts "lts ! i" ocs "ocs ! i" cirs "cirs ! i" lvs "lvs ! i" tys "tys ! i" years "ads ! i"])
    show "row_at (h' ! res) i ''address'' = row_at (h ! df0) i ''address''"
      using addr by (rule row_at_cong_getitem)
    show "row_at (h' ! res) i ''price'' = Some (Num (ps ! i))"
      using out [OF mem] fn(1) by (intro row_at_num) simp
    show "row_at (h' ! res) i ''weekly_rent'' = Some (Num (ws ! i))"
      using out [OF mem] fn(2) by (intro row_at_num) simp
    show "row_at (h' ! res) i ''gross_yield_percent'' =
       Some (Num (fl_mul (Fin 100) (np_div (fl_mul (ws ! i) (Fin 52)) (ps ! i))))"
      using out [OF mem, of "''gross_yield_percent''"] fd(9) i len
      by (simp add: row_at_getitem percent_col_def annual_rent_col_def)
    show "row_at (h' ! res) i ''net_yield_percent'' =
       Some (Num (fl_mul (Fin 100) (np_div
         (noi_at d (ps ! i) (ws ! i) (crs ! i) (sbs ! i) (inss ! i) (lts ! i) (ocs ! i)) (ps ! i))))"
      using out [OF mem, of "''net_yield_percent''"] fd(10) i len lnoi noi
      by (simp add: row_at_getitem percent_col_def)
    show "row_at (h' ! res) i ''NOI'' =
       Some (Num (noi_at d (ps ! i) (ws ! i) (crs ! i) (sbs ! i) (inss ! i) (lts ! i) (ocs ! i)))"
      using out [OF mem, of "''NOI''"] fd(6) noi by (simp add: row_at_getitem)
    show "row_at (h' ! res) i ''loan_amount'' = Some (Num (fl_mul (ps ! i) (lvs ! i)))"
      using out [OF mem, of "''loan_amount''"] fn(11) la by (simp add: row_at_getitem)
    show "row_at (h' ! res) i ''equity'' = Some (Num (equity_at d (ps ! i) (lvs ! i)))"
      using out [OF mem, of "''equity''"] fn(12) eq by (simp add: row_at_getitem)
    show "row_at (h' ! res) i ''stress_rate'' = Some (Num (stress_at d (cirs ! i)))"
      using out [OF mem, of "''stress_rate''"] fn(13) sr by (simp add: row_at_getitem)
    show "row_at (h' ! res) i ''annual_debt_service_stress'' = Some (Num (ads ! i))"
      using out [OF mem, of "''annual_debt_service_stress''"] fn(14) by (simp add: row_at_getitem)
    show "row_at (h' ! res) i ''cashflow_after_debt_stress'' =
       Some (Num (fl_sub
         (noi_at d (ps ! i) (ws ! i) (crs ! i) (sbs ! i) (inss ! i) (lts ! i) (ocs ! i)) (ads ! i)))"
      using out [OF mem, of "''cashflow_after_debt_stress''"] fd(7) cash noi
      by (simp add: row_at_getitem)
    show "row_at (h' ! res) i ''sCoC_percent'' =
       Some (Num (scoc_at
         (noi_at d (ps ! i) (ws ! i) (crs ! i) (sbs ! i) (inss ! i) (lts ! i) (ocs ! i)) (ads ! i)
         (equity_at d (ps ! i) (lvs ! i))))"
      using out [OF mem, of "''sCoC_percent''"] fd(8) sc noi by (simp add: row_at_getitem)
    show "row_at (h' ! res) i ''DSCR_stress'' =
       Some (Num (np_div
         (noi_at d (ps ! i) (ws ! i) (crs ! i) (sbs ! i) (inss ! i) (lts ! i) (ocs ! i)) (ads ! i)))"
      using out [OF mem, of "''DSCR_stress''"] fd(11) ds noi by (simp add: row_at_getitem)
    show "row_at (h' ! res) i ''signal'' =
       Some (Str (signal_of
         (scoc_at (noi_at d (ps ! i) (ws ! i) (crs ! i) (sbs ! i) (inss ! i) (lts ! i) (ocs ! i))
            (ads ! i) (equity_at d (ps ! i) (lvs ! i)))
         (np_div (noi_at d (ps ! i) (ws ! i) (crs ! i) (sbs ! i) (inss ! i) (lts ! i) (ocs ! i))
            (ads ! i))))"
      using out [OF mem, of "''signal''"] fd(12) sc ds noi i
      by (simp add: row_at_getitem signal_col_def)
    show "row_at (h' ! res) i c = None" if "c \<notin> set order" for c
      using other [OF that] by (simp add: row_at_getitem)
  qed (rule inp years a refl)+
  qed
qed

section \<open>Calls that return, and the example with two rows\<close>

lemma select_total:
  "\<forall>c \<in> set cs. has_column c df \<Longrightarrow> \<exists>out. select cs df = Inr out"
proof -
  have "\<forall>c \<in> set cs. has_column c df \<Longrightarrow>
      \<exists>named. traverse (\<lambda>c. bindE (getitem c df) (\<lambda>s. Inr (c, s))) cs = Inr named"
    by (induction cs) (auto simp: has_column_getitem)
  then show "\<forall>c \<in> set cs. has_column c df \<Longrightarrow> \<exists>out. select cs df = Inr out"
    by (auto simp: select_def)
qed

lemma compute_scoc_returns:
  assumes "df0 < length h" and "seqE (body d) (h ! df0) = Inr W"
  shows "compute_scoc d df0 h = (Inr (Suc (length h)), snd (compute_scoc d df0 h))"
proof -
  obtain out where "select (filter (\<lambda>c. has_column c W) order) W = Inr out"
    using select_total [of "filter (\<lambda>c. has_column c W) order" W] by auto
  from compute_scoc_intro [OF assms this] show ?thesis by simp
qed

lemma annual_pni_zero_loan:
  assumes "annual_pni (Fin 0) (Fin s) years = Inr a"
  shows "a = Fin 0"
proof (cases "s \<le> 0")
  case True
  then show ?thesis using assms by (auto simp: annual_pni_def py_div_def split: if_splits)
next
  case False
  then show ?thesis
    using assms
    by (auto simp: annual_pni_def py_div_def py_pow_def bindE_eq_Inr fl_sub_def Let_def
        split: if_splits)
qed

lemma annual_pni_zero_loan_returns:
  assumes "years \<noteq> 0"
  shows "annual_pni (Fin 0) (Fin s) years = Inr (Fin 0)"
proof -
  have "\<exists>a. annual_pni (Fin 0) (Fin s) years = Inr a"
  proof (cases "s \<le> 0")
    case True
    then show ?thesis using assms by (simp add: annual_pni_def py_div_def)
  next
    case False
    then have s: "0 < s / 12" by simp
    show ?thesis
    proof (cases "0 < years")
      case True
      then show ?thesis using annual_pni_finite [of s years 0] False by simp
    next
      case neg: False
      then have y: "years < 0" using assms by simp
      then have "0 < nat (- (years * 12))" by simp
      then have "1 < (1 + s / 12) ^ nat (- (years * 12))"
        using s by (intro power_gt_one) simp_all
      then have "1 / (1 + s / 12) ^ nat (- (years * 12)) \<noteq> 1" by simp
      then show ?thesis
        using False y s
        by (simp add: annual_pni_def py_div_def py_pow_def fl_sub_def Let_def)
    qed
  qed
  then show ?thesis using annual_pni_zero_loan by blast
qed

lemma sample_body:
  "\<exists>W. seqE (body DEFAULTS) sample = Inr W"
  unfolding body_eq
  by (simp add: col_float_def input_col_def getitem_def sample_def DEFAULTS_def
      loan_amount_col_def stress_rate_col_def trunc_def annual_pni_zero_loan_returns
      upt_rec [of 0] upt_rec [of 1] upt_rec [of 2] upt_rec [of "Suc 0"] list_all_iff)

lemma sample_run:
  "compute_scoc DEFAULTS 0 [sample] = (Inr 2, snd (compute_scoc DEFAULTS 0 [sample]))"
proof -
  obtain W where "seqE (body DEFAULTS) ([sample] ! 0) = Inr W" using sample_body by auto
  from compute_scoc_returns [OF _ this] show ?thesis by (simp add: numeral_2_eq_2)
qed

lemma wf_sample: "wf_frame sample"
  by (simp add: wf_frame_def sample_def)

lemma sample_cells:
  assumes "i < 2"
  shows "row_at (snd (compute_scoc DEFAULTS 0 [sample]) ! 2) i ''loan_amount'' = Some (Num (Fin 0))"
    and "row_at (snd (compute_scoc DEFAULTS 0 [sample]) ! 2) i ''annual_debt_service_stress'' =
           Some (Num (Fin 0))"
    and "row_at (snd (compute_scoc DEFAULTS 0 [sample]) ! 2) i ''NOI'' =
           Some (Num ([Fin 0, Fin 31320] ! i))"
    and "row_at (snd (compute_scoc DEFAULTS 0 [sample]) ! 2) i ''equity'' =
           Some (Num ([Fin 476700, Fin 525000] ! i))"
    and "row_at (snd (compute_scoc DEFAULTS 0 [sample]) ! 2) i ''stress_rate'' =
           Some (Num (Fin (85 / 1000)))"
    and "row_at (snd (compute_scoc DEFAULTS 0 [sample]) ! 2) i ''sCoC_percent'' =
           Some (Num ([Fin 0, Fin (1044 / 175)] ! i))"
    and "row_at (snd (compute_scoc DEFAULTS 0 [sample]) ! 2) i ''DSCR_stress'' =
           Some (Num ([NaN, PInf] ! i))"
    and "row_at (snd (compute_scoc DEFAULTS 0 [sample]) ! 2) i ''signal'' =
           Some (Str ([''AVOID (negative under stress)'', ''BUY (resilient)''] ! i))"
proof -
  let ?out = "snd (compute_scoc DEFAULTS 0 [sample]) ! 2"
  have "row_at ?out i ''loan_amount'' = Some (Num (Fin 0))
    \<and> row_at ?out i ''annual_debt_service_stress'' = Some (Num (Fin 0))
    \<and> row_at ?out i ''NOI'' = Some (Num ([Fin 0, Fin 31320] ! i))
    \<and> row_at ?out i ''equity'' = Some (Num ([Fin 476700, Fin 525000] ! i))
    \<and> row_at ?out i ''stress_rate'' = Some (Num (Fin (85 / 1000)))
    \<and> row_at ?out i ''sCoC_percent'' = Some (Num ([Fin 0, Fin (1044 / 175)] ! i))
    \<and> row_at ?out i ''DSCR_stress'' = Some (Num ([NaN, PInf] ! i))
    \<and> row_at ?out i ''signal'' =
        Some (Str ([''AVOID (negative under stress)'', ''BUY (resilient)''] ! i))"
  proof (rule compute_scoc_row [OF sample_run, of i], goal_cases)
    case 1
    show ?case by simp
  next
    case 2
    show ?case using wf_sample by simp
  next
    case 3
    show ?case using assms by (simp add: sample_def)
  next
    case (4 ps ws crs sbs inss lts ocs cirs lvs tys p w cr sb ins lt oc cir lv ty a years)
    have i: "i = 0 \<or> i = 1" using assms by auto
    have p: "p = [Fin 454000, Fin 500000] ! i"
      using 4(1,2) by (auto simp: col_float_def getitem_def sample_def)
    have w: "w = [Fin 100, Fin 800] ! i"
      using 4(3,4) by (auto simp: col_float_def getitem_def sample_def)
    have costs: "cr = Fin 0" "sb = Fin 0" "ins = Fin 0" "lt = Fin 0" "oc = Fin 0"
      using 4(5-14) i by (auto simp: input_col_def getitem_def sample_def numeral_2_eq_2)
    have cir: "cir = Fin (65 / 1000)"
      using 4(15,16) i by (auto simp: input_col_def getitem_def sample_def numeral_2_eq_2)
    have lv: "lv = Fin 0"
      using 4(17,18) i by (auto simp: input_col_def getitem_def sample_def)
    have sr: "stress_at DEFAULTS cir = Fin (85 / 1000)"
      using cir by (simp add: stress_at_def DEFAULTS_def)
    have la0: "fl_mul p lv = Fin 0" using p lv i by auto
    then have a: "a = Fin 0" using 4(22) sr annual_pni_zero_loan by simp
    have noi: "noi_at DEFAULTS p w cr sb ins lt oc = [Fin 0, Fin 31320] ! i"
      using p w costs i by (auto simp: noi_at_def DEFAULTS_def fl_sub_def)
    have eq: "equity_at DEFAULTS p lv = [Fin 476700, Fin 525000] ! i"
      using p lv i by (auto simp: equity_at_def DEFAULTS_def fl_sub_def)
    have sc: "scoc_at ([Fin 0, Fin 31320] ! i) (Fin 0) ([Fin 476700, Fin 525000] ! i) =
        [Fin 0, Fin (1044 / 175)] ! i"
      using i by (auto simp: scoc_at_def fl_sub_def)
    have ds: "np_div ([Fin 0, Fin 31320] ! i) (Fin 0) = [NaN, PInf] ! i"
      using i by auto
    have sg: "signal_of ([Fin 0, Fin (1044 / 175)] ! i) ([NaN, PInf] ! i) =
        [''AVOID (negative under stress)'', ''BUY (resilient)''] ! i"
      using i by (auto simp: signal_of_def fl_ge_def)
    show ?case
      using 4(29,32,28,30,31,34,35,36) la0
      unfolding a noi eq sr sc ds sg by simp
  qed
  then show "row_at ?out i ''loan_amount'' = Some (Num (Fin 0))"
    and "row_at ?out i ''annual_debt_service_stress'' = Some (Num (Fin 0))"
    and "row_at ?out i ''NOI'' = Some (Num ([Fin 0, Fin 31320] ! i))"
    and "row_at ?out i ''equity'' = Some (Num ([Fin 476700, Fin 525000] ! i))"
    and "row_at ?out i ''stress_rate'' = Some (Num (Fin (85 / 1000)))"
    and "row_at ?out i ''sCoC_percent'' = Some (Num ([Fin 0, Fin (1044 / 175)] ! i))"
    and "row_at ?out i ''DSCR_stress'' = Some (Num ([NaN, PInf] ! i))"
    and "row_at ?out i ''signal'' =
        Some (Str ([''AVOID (negative under stress)'', ''BUY (resilient)''] ! i))"
    by simp_all
qed

section \<open>The signal\<close>

text \<open>
  C4. For every row of a table that \<^verbatim>\<open>compute_scoc\<close> returns, the signal follows from the
  \<^verbatim>\<open>sCoC_percent\<close> and the \<^verbatim>\<open>DSCR_stress\<close> of the same row by the first matching
  line: BUY when \<open>sCoC_percent \<ge> 2.0\<close> and \<open>DSCR_stress \<ge> 1.10\<close>, else WATCH when
  \<open>sCoC_percent \<ge> 0.0\<close> and \<open>DSCR_stress \<ge> 1.0\<close>, else AVOID.
\<close>

theorem signal_priority:
  assumes "compute_scoc d df0 h = (Inr res, h')" and "df0 < length h"
    and "wf_frame (h ! df0)" and "i < nrows (h ! df0)"
  shows "\<exists>s x. row_at (h' ! res) i ''sCoC_percent'' = Some (Num s)
    \<and> row_at (h' ! res) i ''DSCR_stress'' = Some (Num x)
    \<and> row_at (h' ! res) i ''signal'' = Some (Str
         (if fl_ge s (Fin 2) \<and> fl_ge x (Fin (11 / 10)) then ''BUY (resilient)''
          else if fl_ge s (Fin 0) \<and> fl_ge x (Fin 1) then ''WATCH (thin buffer)''
          else ''AVOID (negative under stress)''))"
proof (rule compute_scoc_row [OF assms], goal_cases)
  case (1 ps ws crs sbs inss lts ocs cirs lvs tys p w cr sb ins lt oc cir lv ty a years)
  show ?case using 1(34,35,36) unfolding signal_of_def by (intro exI conjI) assumption+
qed

theorem signal_priority_witness:
  "compute_scoc DEFAULTS 0 [sample] = (Inr 2, snd (compute_scoc DEFAULTS 0 [sample]))
   \<and> (0::nat) < length [sample] \<and> wf_frame ([sample] ! 0) \<and> 1 < nrows ([sample] ! 0)
   \<and> (\<exists>s x. row_at (snd (compute_scoc DEFAULTS 0 [sample]) ! 2) 1 ''sCoC_percent'' = Some (Num s)
      \<and> row_at (snd (compute_scoc DEFAULTS 0 [sample]) ! 2) 1 ''DSCR_stress'' = Some (Num x)
      \<and> row_at (snd (compute_scoc DEFAULTS 0 [sample]) ! 2) 1 ''signal'' = Some (Str
         (if fl_ge s (Fin 2) \<and> fl_ge x (Fin (11 / 10)) then ''BUY (resilient)''
          else if fl_ge s (Fin 0) \<and> fl_ge x (Fin 1) then ''WATCH (thin buffer)''
          else ''AVOID (negative under stress)'')))"
proof -
  have w: "wf_frame ([sample] ! 0)" using wf_sample by simp
  have i: "1 < nrows ([sample] ! 0)" by (simp add: sample_def)
  have "0 < length [sample]" by simp
  from signal_priority [OF sample_run this w i] this
  show ?thesis by (intro conjI sample_run w i)
qed

lemma signal_of_nan:
  "s = NaN \<or> x = NaN \<Longrightarrow> signal_of s x = ''AVOID (negative under stress)''"
  by (auto simp: signal_of_def fl_ge_def)

text \<open>
  C10. For every row of a table that \<^verbatim>\<open>compute_scoc\<close> returns whose \<^verbatim>\<open>sCoC_percent\<close>
  or \<^verbatim>\<open>DSCR_stress\<close> is NaN, the signal is AVOID: a comparison with NaN is false, and
  the two earlier lines each need two comparisons to hold.
\<close>

theorem nan_row_is_avoid:
  assumes "compute_scoc d df0 h = (Inr res, h')" and "df0 < length h"
    and "wf_frame (h ! df0)" and "i < nrows (h ! df0)"
    and "row_at (h' ! res) i ''sCoC_percent'' = Some (Num NaN)
       \<or> row_at (h' ! res) i ''DSCR_stress'' = Some (Num NaN)"
  shows "row_at (h' ! res) i ''signal'' = Some (Str ''AVOID (negative under stress)'')"
proof (rule compute_scoc_row [OF assms(1-4)], goal_cases)
  case (1 ps ws crs sbs inss lts ocs cirs lvs tys p w cr sb ins lt oc cir lv ty a years)
  from 1(34,35,36) obtain s x where
    s: "row_at (h' ! res) i ''sCoC_percent'' = Some (Num s)"
    and x: "row_at (h' ! res) i ''DSCR_stress'' = Some (Num x)"
    and g: "row_at (h' ! res) i ''signal'' = Some (Str (signal_of s x))"
    by (intro that)
  from assms(5) have "s = NaN \<or> x = NaN" unfolding s x by simp
  then have "signal_of s x = ''AVOID (negative under stress)''" by (rule signal_of_nan)
  then show ?case using g by simp
qed

theorem nan_row_is_avoid_witness:
  "compute_scoc DEFAULTS 0 [sample] = (Inr 2, snd (compute_scoc DEFAULTS 0 [sample]))
   \<and> (0::nat) < length [sample] \<and> wf_frame ([sample] ! 0) \<and> 0 < nrows ([sample] ! 0)
   \<and> row_at (snd (compute_scoc DEFAULTS 0 [sample]) ! 2) 0 ''DSCR_stress'' = Some (Num NaN)
   \<and> row_at (snd (compute_scoc DEFAULTS 0 [sample]) ! 2) 0 ''signal'' =
       Some (Str ''AVOID (negative under stress)'')"
proof -
  have w: "wf_frame ([sample] ! 0)" using wf_sample by simp
  have i: "0 < nrows ([sample] ! 0)" by (simp add: sample_def)
  have n: "row_at (snd (compute_scoc DEFAULTS 0 [sample]) ! 2) 0 ''DSCR_stress'' = Some (Num NaN)"
    using sample_cells(7) [of 0] by simp
  have "0 < length [sample]" by simp
  from nan_row_is_avoid [OF sample_run this w i disjI2 [OF n]] this
  show ?thesis by (intro conjI sample_run w i n)
qed

section \<open>The columns returned\<close>

lemma result_columns_aux:
  assumes "compute_scoc d df0 h = (Inr res, h')" and "df0 < length h"
  shows "map fst (columns (h' ! res)) =
    (if has_column ''address'' (h ! df0) then order else tl order)"
proof (rule compute_scoc_success [OF assms], goal_cases)
  case (1 work out)
  note h' = 1(1) and res = 1(2) and body = 1(3) and sel = 1(4)
  have out: "h' ! res = out" using h' res by (simp add: nth_append)
  show ?case
  proof (rule body_success [OF body], goal_cases)
    case (1 ps ws crs sbs inss lts ocs cirs lvs tys ads)
    have "filter (\<lambda>c. has_column c work) order =
        (if has_column ''address'' (h ! df0) then order else tl order)"
      unfolding 1(13) by (rule final_order)
    then show ?case using select_success(2) [OF sel] out by simp
  qed
qed

text \<open>
  C7, as amended. The table that \<^verbatim>\<open>compute_scoc\<close> returns has the columns of the fixed
  list, in its order, that the working copy holds: the thirteen columns from
  \<^verbatim>\<open>price\<close> to \<^verbatim>\<open>signal\<close> always, and \<^verbatim>\<open>address\<close> in front of them exactly when the
  input table has an \<^verbatim>\<open>address\<close> column.
\<close>

theorem result_columns:
  assumes "compute_scoc d df0 h = (Inr res, h')" and "df0 < length h"
  shows "map fst (columns (h' ! res)) =
    filter (\<lambda>c. c \<noteq> ''address'' \<or> has_column ''address'' (h ! df0)) order"
  using result_columns_aux [OF assms] by (simp add: order_def)

theorem result_columns_witness:
  "compute_scoc DEFAULTS 0 [sample] = (Inr 2, snd (compute_scoc DEFAULTS 0 [sample]))
   \<and> (0::nat) < length [sample]
   \<and> map fst (columns (snd (compute_scoc DEFAULTS 0 [sample]) ! 2)) =
       [''price'', ''weekly_rent'', ''gross_yield_percent'', ''net_yield_percent'', ''NOI'',
        ''loan_amount'', ''equity'', ''stress_rate'', ''annual_debt_service_stress'',
        ''cashflow_after_debt_stress'', ''sCoC_percent'', ''DSCR_stress'', ''signal'']"
proof -
  have l: "0 < length [sample]" by simp
  have "map fst (columns (snd (compute_scoc DEFAULTS 0 [sample]) ! 2)) =
      filter (\<lambda>c. c \<noteq> ''address'' \<or> has_column ''address'' ([sample] ! 0)) order"
    by (rule result_columns [OF sample_run l])
  then have "map fst (columns (snd (compute_scoc DEFAULTS 0 [sample]) ! 2)) =
       [''price'', ''weekly_rent'', ''gross_yield_percent'', ''net_yield_percent'', ''NOI'',
        ''loan_amount'', ''equity'', ''stress_rate'', ''annual_debt_service_stress'',
        ''cashflow_after_debt_stress'', ''sCoC_percent'', ''DSCR_stress'', ''signal'']"
    by (simp add: order_def has_column_def sample_def)
  then show ?thesis by (intro conjI sample_run l)
qed

theorem result_columns_counterexample:
  "fst (compute_scoc DEFAULTS 0 [sample]) = Inr 2
   \<and> map fst (columns (snd (compute_scoc DEFAULTS 0 [sample]) ! 2)) \<noteq>
       [''address'', ''price'', ''weekly_rent'', ''gross_yield_percent'', ''net_yield_percent'',
        ''NOI'', ''loan_amount'', ''equity'', ''stress_rate'', ''annual_debt_service_stress'',
        ''cashflow_after_debt_stress'', ''sCoC_percent'', ''DSCR_stress'', ''signal'']"
proof -
  have "map fst (columns (snd (compute_scoc DEFAULTS 0 [sample]) ! 2)) = tl order"
    using result_columns_aux [OF sample_run] by (simp add: has_column_def sample_def)
  moreover have "fst (compute_scoc DEFAULTS 0 [sample]) = Inr 2"
    using sample_run by (metis fst_conv)
  ultimately show ?thesis by (simp add: order_def)
qed

section \<open>The cells of the input that a row of the result is computed from\<close>







section \<open>Rows that borrow nothing\<close>




section \<open>Row by row\<close>






section \<open>The payment as a multiple of the loan\<close>











section \<open>More stress, less return\<close>



section \<open>The demo row\<close>










end
